theory Spec2Isabelle
  imports Complex_Main
begin

section \<open>JavaScript values\<close>

text \<open>
  The values the extension handles come from JSON documents (API responses, the parsed
  .seal file), from chrome.storage and from extension messages, so they are JSON-shaped:
  undefined, null, booleans, finite numbers, strings, arrays and plain objects.  An object
  is the list of its own properties, keys unique, in insertion order.
\<close>

datatype jsval =
    JUndefined
  | JNull
  | JBool bool
  | JNum rat
  | JStr string
  | JArr "jsval list"
  | JObj "(string \<times> jsval) list"

text \<open>
  Exceptions.  \<open>Error\<close> is what the code throws itself with \<open>new Error(msg)\<close>; the other
  two are raised by the engine or the platform.  Each carries its \<open>message\<close>.
\<close>

datatype js_error = Error string | TypeError string | SyntaxError string

fun message :: "js_error \<Rightarrow> string" where
  "message (Error m) = m"
| "message (TypeError m) = m"
| "message (SyntaxError m) = m"

text \<open>\<open>instanceof SyntaxError\<close>\<close>

fun is_SyntaxError :: "js_error \<Rightarrow> bool" where
  "is_SyntaxError (SyntaxError m) = True"
| "is_SyntaxError e = False"

text \<open>ToBoolean: what \<open>if (v)\<close>, \<open>!v\<close>, \<open>a && b\<close> and \<open>a || b\<close> test.\<close>

fun truthy :: "jsval \<Rightarrow> bool" where
  "truthy JUndefined = False"
| "truthy JNull = False"
| "truthy (JBool b) = b"
| "truthy (JNum n) = (n \<noteq> 0)"
| "truthy (JStr s) = (s \<noteq> [])"
| "truthy (JArr xs) = True"
| "truthy (JObj kvs) = True"

text \<open>\<open>a || b\<close> on values whose evaluation cannot throw.\<close>

definition js_or :: "jsval \<Rightarrow> jsval \<Rightarrow> jsval" where
  "js_or a b = (if truthy a then a else b)"

text \<open>
  \<open>a === b\<close> between two values that come from different sources (a deserialised storage
  record and a parsed response, or any value and a literal): primitives compare by value,
  arrays and objects by identity, and two separately built ones are never identical.
\<close>

definition strict_eq :: "jsval \<Rightarrow> jsval \<Rightarrow> bool" where
  "strict_eq a b =
     (case a of JArr xs \<Rightarrow> False | JObj kvs \<Rightarrow> False | _ \<Rightarrow> a = b)"

text \<open>
  Property read \<open>v.k\<close> for the data property names the code uses.  Reading a property of
  undefined or null throws a TypeError (V8's wording); an object yields its own property
  or undefined; arrays and strings have \<open>length\<close>; every other read yields undefined.
\<close>

definition obj_prop :: "(string \<times> jsval) list \<Rightarrow> string \<Rightarrow> jsval" where
  "obj_prop kvs k = (case map_of kvs k of Some v \<Rightarrow> v | None \<Rightarrow> JUndefined)"

fun get_prop :: "jsval \<Rightarrow> string \<Rightarrow> js_error + jsval" where
  "get_prop JUndefined k =
     Inl (TypeError (''Cannot read properties of undefined (reading '' @ k @ '')''))"
| "get_prop JNull k =
     Inl (TypeError (''Cannot read properties of null (reading '' @ k @ '')''))"
| "get_prop (JObj kvs) k = Inr (obj_prop kvs k)"
| "get_prop (JArr xs) k =
     Inr (if k = ''length'' then JNum (of_nat (length xs)) else JUndefined)"
| "get_prop (JStr s) k =
     Inr (if k = ''length'' then JNum (of_nat (length s)) else JUndefined)"
| "get_prop (JBool b) k = Inr JUndefined"
| "get_prop (JNum n) k = Inr JUndefined"

section \<open>Background service worker\<close>

subsection \<open>Credential store: chrome.storage.local\<close>

type_synonym storage = "string \<rightharpoonup> jsval"

text \<open>
  \<open>chrome.storage.local.get(keys, cb)\<close>: the callback receives an object holding the
  requested keys that are stored; \<open>getStoredAuth\<close> resolves with it (\<open>data || {}\<close>).
  It is always an object, so it is represented by its property list.
\<close>

fun storage_get :: "string list \<Rightarrow> storage \<Rightarrow> (string \<times> jsval) list" where
  "storage_get [] st = []"
| "storage_get (k # ks) st =
     (case st k of None \<Rightarrow> storage_get ks st | Some v \<Rightarrow> (k, v) # storage_get ks st)"

definition getStoredAuth :: "storage \<Rightarrow> (string \<times> jsval) list" where
  "getStoredAuth st = storage_get [''authToken'', ''userEmail''] st"

text \<open>
  \<open>chrome.storage.local.set(items, cb)\<close> writes all items in one operation.  The items are
  serialised as JSON.stringify does, so a property whose value is undefined is not written.
\<close>

fun storage_set :: "(string \<times> jsval) list \<Rightarrow> storage \<Rightarrow> storage" where
  "storage_set [] st = st"
| "storage_set ((k, v) # kvs) st =
     storage_set kvs (if v = JUndefined then st else st(k \<mapsto> v))"

definition storeAuth :: "jsval \<Rightarrow> jsval \<Rightarrow> storage \<Rightarrow> storage" where
  "storeAuth token email st = storage_set [(''authToken'', token), (''userEmail'', email)] st"

text \<open>\<open>chrome.storage.local.remove(keys, cb)\<close>\<close>

fun storage_remove :: "string list \<Rightarrow> storage \<Rightarrow> storage" where
  "storage_remove [] st = st"
| "storage_remove (k # ks) st = storage_remove ks (st(k := None))"

definition clearAuth :: "storage \<Rightarrow> storage" where
  "clearAuth st = storage_remove [''authToken'', ''userEmail''] st"

text \<open>
  The two fields of the stored credential as \<open>getStoredAuth\<close> shows them:
  \<open>stored.authToken\<close> and \<open>stored.userEmail\<close>, undefined when the key is not stored.
\<close>

definition stored_field :: "storage \<Rightarrow> string \<Rightarrow> jsval" where
  "stored_field st k = obj_prop (getStoredAuth st) k"

text \<open>
  A field counts as present under the test the code applies to it everywhere
  (\<open>if (authToken)\<close> in authHeaders, \<open>userEmail || null\<close> in getStoredEmail,
  \<open>token && email\<close> in the hand-off): its value is truthy.
\<close>

definition token_present :: "storage \<Rightarrow> bool" where
  "token_present st = truthy (stored_field st ''authToken'')"

definition email_present :: "storage \<Rightarrow> bool" where
  "email_present st = truthy (stored_field st ''userEmail'')"

definition paired :: "storage \<Rightarrow> bool" where
  "paired st = (token_present st = email_present st)"

subsection \<open>HTTP\<close>

definition API_BASE :: string where
  "API_BASE = ''https://seal.email/api''"

text \<open>A header value is a literal or the template \<open>Bearer ${authToken}\<close>.\<close>

datatype header_value = Literal string | Bearer jsval

record request =
  url :: string
  http_method :: string
  headers :: "(string \<times> header_value) list"
  credentials_include :: bool
  body :: "jsval option"

text \<open>
  What the network answers to a \<open>fetch\<close>: the promise rejects (\<open>Inl\<close>), or resolves with
  a response of some status whose \<open>json()\<close> in turn rejects or yields the parsed body.
  \<open>response.ok\<close> is the Fetch standard's: the status is in the range 200 to 299.
\<close>

record response =
  status :: nat
  json :: "js_error + jsval"

type_synonym fetch_result = "js_error + response"

definition ok :: "response \<Rightarrow> bool" where
  "ok r = (200 \<le> status r \<and> status r \<le> 299)"

text \<open>
  A handler's effect: the value its promise resolves with, the credential store
  afterwards, and the requests it issued, in order.
\<close>

record outcome =
  returned :: jsval
  storage_after :: storage
  requests :: "request list"

definition authHeaders :: "storage \<Rightarrow> (string \<times> header_value) list" where
  "authHeaders st =
     (let authToken = obj_prop (getStoredAuth st) ''authToken'' in
      [(''Content-Type'', Literal ''application/json'')] @
      (if truthy authToken then [(''Authorization'', Bearer authToken)] else []))"

subsection \<open>checkAuth\<close>

definition auth_status_request :: "storage \<Rightarrow> request" where
  "auth_status_request st =
     \<lparr>url = API_BASE @ ''/auth/status'', http_method = ''GET'', headers = authHeaders st,
      credentials_include = True, body = None\<rparr>"

text \<open>The catch clause of checkAuth.\<close>

definition checkAuth_catch :: "js_error \<Rightarrow> jsval" where
  "checkAuth_catch err =
     JObj [(''authenticated'', JBool False), (''error'', JStr (message err))]"

text \<open>
  The part of checkAuth after \<open>const data = await response.json()\<close>:
  \<open>data.authenticated && data.email\<close>, then the reconciliation or the clear.
  \<open>Inl\<close> is an exception on its way to the catch clause; no store operation precedes one.
\<close>

definition checkAuth_reconcile :: "jsval \<Rightarrow> storage \<Rightarrow> js_error + storage" where
  "checkAuth_reconcile data st =
     (case get_prop data ''authenticated'' of
        Inl e \<Rightarrow> Inl e
      | Inr authenticated \<Rightarrow>
          if truthy authenticated then
            (case get_prop data ''email'' of
               Inl e \<Rightarrow> Inl e
             | Inr email \<Rightarrow>
                 if truthy email then
                   (let stored = getStoredAuth st in
                    if \<not> strict_eq (obj_prop stored ''userEmail'') email then
                      Inr (storeAuth (js_or (obj_prop stored ''authToken'') (JStr [])) email st)
                    else Inr st)
                 else Inr (clearAuth st))
          else Inr (clearAuth st))"

definition checkAuth :: "fetch_result \<Rightarrow> storage \<Rightarrow> outcome" where
  "checkAuth reply st =
     (let rq = auth_status_request st in
      case reply of
        Inl err \<Rightarrow>
          \<lparr>returned = checkAuth_catch err, storage_after = st, requests = [rq]\<rparr>
      | Inr resp \<Rightarrow>
          if \<not> ok resp then
            \<lparr>returned = JObj [(''authenticated'', JBool False)],
             storage_after = clearAuth st, requests = [rq]\<rparr>
          else
            (case json resp of
               Inl err \<Rightarrow>
                 \<lparr>returned = checkAuth_catch err, storage_after = st, requests = [rq]\<rparr>
             | Inr data \<Rightarrow>
                 (case checkAuth_reconcile data st of
                    Inl err \<Rightarrow>
                      \<lparr>returned = checkAuth_catch err, storage_after = st, requests = [rq]\<rparr>
                  | Inr st' \<Rightarrow>
                      \<lparr>returned = data, storage_after = st', requests = [rq]\<rparr>)))"

subsection \<open>fetchPublicKey\<close>

text \<open>
  \<open>encodeURIComponent\<close> is the platform's and is a parameter; \<open>email\<close> is the address
  string the caller passes; \<open>reply\<close> is what the network answers to the one request.
\<close>

definition public_key_request :: "(string \<Rightarrow> string) \<Rightarrow> string \<Rightarrow> storage \<Rightarrow> request" where
  "public_key_request encodeURIComponent email st =
     \<lparr>url = API_BASE @ ''/users/public-key/'' @ encodeURIComponent email,
      http_method = ''GET'', headers = authHeaders st,
      credentials_include = True, body = None\<rparr>"

text \<open>The catch clause of fetchPublicKey.\<close>

definition fetchPublicKey_catch :: "string \<Rightarrow> js_error \<Rightarrow> jsval" where
  "fetchPublicKey_catch email err =
     JObj [(''found'', JBool False), (''email'', JStr email),
           (''error'', JStr (message err))]"

text \<open>
  The try block of fetchPublicKey: \<open>Inl\<close> is an exception raised inside it (a rejected
  fetch, a rejected \<open>json()\<close>, the \<open>throw new Error\<close> of the code, a TypeError on
  \<open>data.publicKey\<close>), \<open>Inr\<close> the value a \<open>return\<close> inside it yields.
\<close>

definition fetchPublicKey_try :: "fetch_result \<Rightarrow> string \<Rightarrow> js_error + jsval" where
  "fetchPublicKey_try reply email =
     (case reply of
        Inl err \<Rightarrow> Inl err
      | Inr resp \<Rightarrow>
          if \<not> ok resp then
            (if status resp = 404 then
               Inr (JObj [(''found'', JBool False), (''email'', JStr email)])
             else Inl (Error (''Failed to fetch key for '' @ email)))
          else
            (case json resp of
               Inl err \<Rightarrow> Inl err
             | Inr data \<Rightarrow>
                 (case get_prop data ''publicKey'' of
                    Inl err \<Rightarrow> Inl err
                  | Inr publicKey \<Rightarrow>
                      Inr (JObj [(''found'', JBool True), (''email'', JStr email),
                                 (''publicKey'', publicKey)]))))"

definition fetchPublicKey ::
  "(string \<Rightarrow> string) \<Rightarrow> fetch_result \<Rightarrow> string \<Rightarrow> storage \<Rightarrow> outcome" where
  "fetchPublicKey encodeURIComponent reply email st =
     \<lparr>returned = (case fetchPublicKey_try reply email of
                     Inl err \<Rightarrow> fetchPublicKey_catch email err
                   | Inr v \<Rightarrow> v),
      storage_after = st,
      requests = [public_key_request encodeURIComponent email st]\<rparr>"

subsection \<open>Internal message handlers\<close>

text \<open>
  \<open>const { a, b } = v\<close>: undefined and null cannot be destructured (a TypeError, V8's
  wording); any other value yields the two properties.
\<close>

definition destructure2 :: "jsval \<Rightarrow> string \<Rightarrow> string \<Rightarrow> js_error + jsval \<times> jsval" where
  "destructure2 v a b =
     (if v = JUndefined \<or> v = JNull then
        Inl (TypeError (''Cannot destructure property '' @ a @ '' of the value as it is ''
                        @ (if v = JNull then ''null.'' else ''undefined.'')))
      else
        (case get_prop v a of
           Inl e \<Rightarrow> Inl e
         | Inr x \<Rightarrow> (case get_prop v b of Inl e \<Rightarrow> Inl e | Inr y \<Rightarrow> Inr (x, y))))"

definition login_request :: "jsval \<Rightarrow> jsval \<Rightarrow> request" where
  "login_request email password =
     \<lparr>url = API_BASE @ ''/auth/login'', http_method = ''POST'',
      headers = [(''Content-Type'', Literal ''application/json'')],
      credentials_include = False,
      body = Some (JObj [(''email'', email), (''password'', password)])\<rparr>"

text \<open>The catch clause of loginWithCredentials.\<close>

definition login_catch :: "js_error \<Rightarrow> jsval" where
  "login_catch err = JObj [(''authenticated'', JBool False), (''error'', JStr (message err))]"

text \<open>
  The try block of loginWithCredentials from \<open>const data = await response.json()\<close> on.
  It yields the value returned and the store afterwards, or the exception raised
  (none is raised after the store has been written).
\<close>

definition login_try :: "response \<Rightarrow> storage \<Rightarrow> js_error + jsval \<times> storage" where
  "login_try resp st =
     (case json resp of
        Inl err \<Rightarrow> Inl err
      | Inr data \<Rightarrow>
          (case (if \<not> ok resp then Inr True
                 else (case get_prop data ''authenticated'' of
                         Inl err \<Rightarrow> Inl err
                       | Inr a \<Rightarrow> Inr (\<not> truthy a))) of
             Inl err \<Rightarrow> Inl err
           | Inr True \<Rightarrow>
               (case get_prop data ''error'' of
                  Inl err \<Rightarrow> Inl err
                | Inr e \<Rightarrow>
                    Inr (JObj [(''authenticated'', JBool False),
                               (''error'', js_or e (JStr ''Login failed''))], st))
           | Inr False \<Rightarrow>
               (case get_prop data ''token'' of
                  Inl err \<Rightarrow> Inl err
                | Inr token \<Rightarrow>
                    (case get_prop data ''email'' of
                       Inl err \<Rightarrow> Inl err
                     | Inr email \<Rightarrow>
                         Inr (JObj [(''authenticated'', JBool True), (''email'', email)],
                              storeAuth token email st)))))"

text \<open>
  The handler's promise rejects (\<open>Inl\<close>) only if the destructuring of the request, which
  is outside the try block, throws.
\<close>

definition loginWithCredentials :: "jsval \<Rightarrow> fetch_result \<Rightarrow> storage \<Rightarrow> js_error + outcome" where
  "loginWithCredentials request reply st =
     (case destructure2 request ''email'' ''password'' of
        Inl err \<Rightarrow> Inl err
      | Inr (email, password) \<Rightarrow>
          if \<not> truthy email \<or> \<not> truthy password then
            Inr \<lparr>returned = JObj [(''authenticated'', JBool False),
                                  (''error'', JStr ''Email and password are required'')],
                 storage_after = st, requests = []\<rparr>
          else
            (let rq = login_request email password in
             case reply of
               Inl err \<Rightarrow>
                 Inr \<lparr>returned = login_catch err, storage_after = st, requests = [rq]\<rparr>
             | Inr resp \<Rightarrow>
                 (case login_try resp st of
                    Inl err \<Rightarrow>
                      Inr \<lparr>returned = login_catch err, storage_after = st, requests = [rq]\<rparr>
                  | Inr (v, st') \<Rightarrow>
                      Inr \<lparr>returned = v, storage_after = st', requests = [rq]\<rparr>)))"

definition logout :: "storage \<Rightarrow> outcome" where
  "logout st =
     \<lparr>returned = JObj [(''success'', JBool True)], storage_after = clearAuth st,
      requests = []\<rparr>"

definition getStoredEmail :: "storage \<Rightarrow> outcome" where
  "getStoredEmail st =
     \<lparr>returned = JObj [(''email'', js_or (obj_prop (getStoredAuth st) ''userEmail'') JNull)],
      storage_after = st, requests = []\<rparr>"

subsection \<open>External message handler\<close>

text \<open>
  The listener of \<open>chrome.runtime.onMessageExternal\<close>.  \<open>sender.url\<close> is a string or
  undefined.  \<open>new URL(u).origin\<close> is the platform's and is a parameter \<open>URL_origin\<close>;
  it throws a TypeError on a string that is not a URL.  \<open>version\<close> is
  \<open>chrome.runtime.getManifest().version\<close>.
\<close>

record sender =
  sender_url :: "string option"

definition allowedOrigins :: "string list" where
  "allowedOrigins = [''https://seal.email'', ''http://localhost:3000'']"

definition senderOrigin :: "(string \<Rightarrow> js_error + string) \<Rightarrow> sender \<Rightarrow> js_error + string" where
  "senderOrigin URL_origin sndr =
     (case sender_url sndr of
        None \<Rightarrow> Inr []
      | Some u \<Rightarrow> if u = [] then Inr [] else URL_origin u)"

text \<open>
  What the listener did: the argument of the one \<open>sendResponse\<close> call (none if it never
  responded), whether it returned true to keep the channel open, the exception it threw
  if any, and the credential store once its promise chain has settled.
\<close>

record ext_outcome =
  response_sent :: "jsval option"
  keep_open :: bool
  thrown :: "js_error option"
  ext_storage_after :: storage

definition onMessageExternal ::
  "(string \<Rightarrow> js_error + string) \<Rightarrow> string \<Rightarrow> jsval \<Rightarrow> sender \<Rightarrow> storage \<Rightarrow> ext_outcome" where
  "onMessageExternal URL_origin version msg sndr st =
     (case senderOrigin URL_origin sndr of
        Inl err \<Rightarrow>
          \<lparr>response_sent = None, keep_open = False, thrown = Some err,
           ext_storage_after = st\<rparr>
      | Inr origin \<Rightarrow>
          if origin \<notin> set allowedOrigins then
            \<lparr>response_sent = Some (JObj [(''error'', JStr ''Unauthorized origin'')]),
             keep_open = False, thrown = None, ext_storage_after = st\<rparr>
          else
            (case get_prop msg ''type'' of
               Inl err \<Rightarrow>
                 \<lparr>response_sent = None, keep_open = False, thrown = Some err,
                  ext_storage_after = st\<rparr>
             | Inr ty \<Rightarrow>
                 if strict_eq ty (JStr ''SEAL_AUTH_TOKEN'') then
                   (case destructure2 msg ''token'' ''email'' of
                      Inl err \<Rightarrow>
                        \<lparr>response_sent = None, keep_open = False, thrown = Some err,
                         ext_storage_after = st\<rparr>
                    | Inr (token, email) \<Rightarrow>
                        if truthy token \<and> truthy email then
                          \<lparr>response_sent = Some (JObj [(''success'', JBool True)]),
                           keep_open = True, thrown = None,
                           ext_storage_after = storeAuth token email st\<rparr>
                        else
                          \<lparr>response_sent =
                             Some (JObj [(''error'', JStr ''Missing token or email'')]),
                           keep_open = True, thrown = None, ext_storage_after = st\<rparr>)
                 else if strict_eq ty (JStr ''SEAL_LOGOUT'') then
                   \<lparr>response_sent = Some (JObj [(''success'', JBool True)]),
                    keep_open = True, thrown = None, ext_storage_after = clearAuth st\<rparr>
                 else if strict_eq ty (JStr ''SEAL_PING'') then
                   \<lparr>response_sent =
                      Some (JObj [(''installed'', JBool True), (''version'', JStr version)]),
                    keep_open = False, thrown = None, ext_storage_after = st\<rparr>
                 else
                   \<lparr>response_sent = Some (JObj [(''error'', JStr ''Unknown message type'')]),
                    keep_open = False, thrown = None, ext_storage_after = st\<rparr>))"

section \<open>Popup\<close>

subsection \<open>Numbers and conversions\<close>

text \<open>
  The result of a numeric conversion: NaN, a finite number (its mathematical value) or
  an infinity.
\<close>

datatype jsnum = JsNaN | JsFinite rat | JsPosInf | JsNegInf

text \<open>\<open>a < b\<close> on numbers: false when either side is NaN.\<close>

fun num_less :: "jsnum \<Rightarrow> jsnum \<Rightarrow> bool" where
  "num_less JsNaN b = False"
| "num_less a JsNaN = False"
| "num_less (JsFinite a) (JsFinite b) = (a < b)"
| "num_less (JsFinite a) JsPosInf = True"
| "num_less (JsFinite a) JsNegInf = False"
| "num_less JsNegInf (JsFinite b) = True"
| "num_less JsNegInf JsPosInf = True"
| "num_less JsNegInf JsNegInf = False"
| "num_less JsPosInf b = False"

text \<open>\<open>a / d\<close> for a positive finite divisor \<open>d\<close>.\<close>

fun num_div :: "jsnum \<Rightarrow> rat \<Rightarrow> jsnum" where
  "num_div (JsFinite a) d = JsFinite (a / d)"
| "num_div a d = a"

text \<open>
  The platform functions the popup calls, as parameters: \<open>JSON.parse\<close>; the time value
  in milliseconds that \<open>Date\<close> parses from a string (\<open>None\<close> for an Invalid Date); the
  time value of \<open>new Date()\<close>; the conversion of a string to a number and of a number to
  a string; \<open>toFixed(1)\<close>; \<open>toLocaleDateString\<close> of a date with the given time value;
  \<open>String.prototype.toLowerCase\<close>.
\<close>

record platform =
  JSON_parse :: "string \<Rightarrow> js_error + jsval"
  Date_parse :: "string \<Rightarrow> int option"
  Date_now :: int
  StringToNumber :: "string \<Rightarrow> jsnum"
  NumberToString :: "rat \<Rightarrow> string"
  toFixed1 :: "jsnum \<Rightarrow> string"
  toLocaleDateString :: "int option \<Rightarrow> string"
  toLowerCase :: "string \<Rightarrow> string"

text \<open>\<open>Array.prototype.join\<close> on the strings of the elements.\<close>

fun join_with :: "string \<Rightarrow> string list \<Rightarrow> string" where
  "join_with sep [] = []"
| "join_with sep [s] = s"
| "join_with sep (s # t # ss) = s @ sep @ join_with sep (t # ss)"

text \<open>
  ToString.  An object is converted through ToPrimitive, which looks up \<open>toString\<close> and
  \<open>valueOf\<close> on it: a plain object that has no \<open>toString\<close> property of its own inherits
  \<open>Object.prototype.toString\<close> and yields \<open>[object Object]\<close>; one that has such a
  property (a JSON value, so not callable) has no callable conversion left, since the
  inherited \<open>valueOf\<close> returns the object itself, and the conversion throws a TypeError.
  An array is joined with commas, where undefined and null elements give the empty
  string and the first element that cannot be converted throws.
\<close>

fun ToString :: "platform \<Rightarrow> jsval \<Rightarrow> js_error + string"
  and element_strings :: "platform \<Rightarrow> jsval list \<Rightarrow> js_error + string list" where
  "ToString pf JUndefined = Inr ''undefined''"
| "ToString pf JNull = Inr ''null''"
| "ToString pf (JBool b) = Inr (if b then ''true'' else ''false'')"
| "ToString pf (JNum n) = Inr (NumberToString pf n)"
| "ToString pf (JStr s) = Inr s"
| "ToString pf (JArr xs) =
     (case element_strings pf xs of
        Inl e \<Rightarrow> Inl e
      | Inr ss \<Rightarrow> Inr (join_with '','' ss))"
| "ToString pf (JObj kvs) =
     (if map_of kvs ''toString'' \<noteq> None then
        Inl (TypeError ''Cannot convert object to primitive value'')
      else Inr ''[object Object]'')"
| "element_strings pf [] = Inr []"
| "element_strings pf (x # xs) =
     (case (if x = JUndefined \<or> x = JNull then Inr [] else ToString pf x) of
        Inl e \<Rightarrow> Inl e
      | Inr s \<Rightarrow>
          (case element_strings pf xs of
             Inl e \<Rightarrow> Inl e
           | Inr ss \<Rightarrow> Inr (s # ss)))"

text \<open>\<open>xs.join(sep)\<close> on an array.\<close>

definition array_join :: "platform \<Rightarrow> string \<Rightarrow> jsval list \<Rightarrow> js_error + string" where
  "array_join pf sep xs =
     (case element_strings pf xs of
        Inl e \<Rightarrow> Inl e
      | Inr ss \<Rightarrow> Inr (join_with sep ss))"

text \<open>
  ToNumber: an array or object is converted to its primitive, a string, first, which
  throws where ToString does.
\<close>

definition ToNumber :: "platform \<Rightarrow> jsval \<Rightarrow> js_error + jsnum" where
  "ToNumber pf v =
     (case v of
        JUndefined \<Rightarrow> Inr JsNaN
      | JNull \<Rightarrow> Inr (JsFinite 0)
      | JBool b \<Rightarrow> Inr (JsFinite (if b then 1 else 0))
      | JNum n \<Rightarrow> Inr (JsFinite n)
      | JStr s \<Rightarrow> Inr (StringToNumber pf s)
      | _ \<Rightarrow>
          (case ToString pf v of
             Inl e \<Rightarrow> Inl e
           | Inr s \<Rightarrow> Inr (StringToNumber pf s)))"

text \<open>
  TimeClip: a time value is an integral number of milliseconds of magnitude at most
  8.64e15; anything else is NaN (\<open>None\<close>).
\<close>

definition TimeClip :: "jsnum \<Rightarrow> int option" where
  "TimeClip n =
     (case n of
        JsFinite r \<Rightarrow>
          if \<bar>r\<bar> > 8640000000000000 then None
          else Some (if r \<ge> 0 then \<lfloor>r\<rfloor> else \<lceil>r\<rceil>)
      | _ \<Rightarrow> None)"

text \<open>
  The time value of \<open>new Date(v)\<close>: the argument is converted to a primitive (which
  throws where ToString does); a string is parsed as a date, any other primitive is
  converted to a number and clipped.
\<close>

definition new_Date :: "platform \<Rightarrow> jsval \<Rightarrow> js_error + int option" where
  "new_Date pf v =
     (case v of
        JStr s \<Rightarrow> Inr (Date_parse pf s)
      | JArr xs \<Rightarrow>
          (case ToString pf v of Inl e \<Rightarrow> Inl e | Inr s \<Rightarrow> Inr (Date_parse pf s))
      | JObj kvs \<Rightarrow>
          (case ToString pf v of Inl e \<Rightarrow> Inl e | Inr s \<Rightarrow> Inr (Date_parse pf s))
      | _ \<Rightarrow>
          (case ToNumber pf v of Inl e \<Rightarrow> Inl e | Inr n \<Rightarrow> Inr (TimeClip n)))"

subsection \<open>State\<close>

text \<open>The dropped file: \<open>file.name\<close>, \<open>file.size\<close> and what \<open>file.text()\<close> settles with.\<close>

record js_file =
  file_name :: string
  file_size :: nat
  file_text :: "js_error + string"

datatype screen = ScreenLoading | ScreenLogin | ScreenDrop | ScreenInfo | ScreenError

text \<open>
  The expiry row holds the Expired badge, the expiry date (its time value, rendered by
  \<open>toLocaleDateString\<close>) or Never; the access row holds one of two badges.
\<close>

datatype expires_display = ExpiredBadge | ExpiresOn "int option" | Never

datatype access_display = Authorized | NotRecipient

text \<open>
  The popup's variables (\<open>currentSealFile\<close>, \<open>currentRawText\<close>, \<open>userEmail\<close>, null
  being \<open>None\<close> and \<open>JNull\<close>), the active screen, and the elements that handleFile and
  displayFileInfo write: the text of the error message, of the file name, size, date
  and recipients rows, the title of the recipients row, the expiry and access rows and
  the open button.
\<close>

record popup =
  currentSealFile :: "jsval option"
  currentRawText :: "string option"
  userEmail :: jsval
  screen :: screen
  errorMessage :: string
  infoFilename :: string
  infoSize :: string
  infoDate :: string
  infoExpires :: expires_display
  infoRecipients :: string
  infoRecipientsTitle :: string
  accessRowHidden :: bool
  infoAccess :: access_display
  btnOpenViewerDisabled :: bool
  btnOpenViewerText :: string

definition showError :: "string \<Rightarrow> popup \<Rightarrow> popup" where
  "showError msg p = p\<lparr>errorMessage := msg, screen := ScreenError\<rparr>"

definition startsWith :: "string \<Rightarrow> string \<Rightarrow> bool" where
  "startsWith s t = (take (length t) s = t)"

definition endsWith :: "string \<Rightarrow> string \<Rightarrow> bool" where
  "endsWith s t = (length t \<le> length s \<and> drop (length s - length t) s = t)"

subsection \<open>displayFileInfo\<close>

text \<open>
  The file name row: \<open>textContent = meta.originalName || 'Unknown file'\<close>; the assigned
  value is converted to a string.
\<close>

definition filename_row :: "platform \<Rightarrow> jsval \<Rightarrow> js_error + string" where
  "filename_row pf meta =
     (case get_prop meta ''originalName'' of
        Inl e \<Rightarrow> Inl e
      | Inr originalName \<Rightarrow> ToString pf (js_or originalName (JStr ''Unknown file'')))"

text \<open>
  formatFileSize: \<open>bytes < 1024\<close> and the divisions convert \<open>bytes\<close> to a number,
  \<open>bytes + ' B'\<close> to a string; the conversion of the first comparison is the one that
  can throw.
\<close>

definition formatFileSize :: "platform \<Rightarrow> jsval \<Rightarrow> js_error + string" where
  "formatFileSize pf bytes =
     (case ToNumber pf bytes of
        Inl e \<Rightarrow> Inl e
      | Inr n \<Rightarrow>
          if num_less n (JsFinite 1024) then
            (case ToString pf bytes of Inl e \<Rightarrow> Inl e | Inr s \<Rightarrow> Inr (s @ '' B''))
          else if num_less n (JsFinite (1024 * 1024)) then
            Inr (toFixed1 pf (num_div n 1024) @ '' KB'')
          else Inr (toFixed1 pf (num_div n (1024 * 1024)) @ '' MB''))"

text \<open>The size row: \<open>formatFileSize(meta.originalSize || fileSize)\<close>.\<close>

definition size_row :: "platform \<Rightarrow> jsval \<Rightarrow> nat \<Rightarrow> js_error + string" where
  "size_row pf meta fileSize =
     (case get_prop meta ''originalSize'' of
        Inl e \<Rightarrow> Inl e
      | Inr originalSize \<Rightarrow>
          formatFileSize pf (js_or originalSize (JNum (of_nat fileSize))))"

text \<open>The encryption date row.\<close>

definition date_row :: "platform \<Rightarrow> jsval \<Rightarrow> js_error + string" where
  "date_row pf meta =
     (case get_prop meta ''encryptedAt'' of
        Inl e \<Rightarrow> Inl e
      | Inr encryptedAt \<Rightarrow>
          if truthy encryptedAt then
            (case new_Date pf encryptedAt of
               Inl e \<Rightarrow> Inl e
             | Inr tv \<Rightarrow> Inr (toLocaleDateString pf tv))
          else Inr ''Unknown'')"

text \<open>
  The expiration block for the value of \<open>meta.expiresAt\<close>: the local \<open>isExpired\<close> and
  what the expiry row shows.  \<open>new Date(meta.expiresAt)\<close> can throw;
  \<open>expiresAt < new Date()\<close> compares time values and is false for an Invalid Date.
\<close>

definition expiration_check :: "platform \<Rightarrow> jsval \<Rightarrow> js_error + bool \<times> expires_display" where
  "expiration_check pf expiresAt =
     (if truthy expiresAt then
        (case new_Date pf expiresAt of
           Inl e \<Rightarrow> Inl e
         | Inr tv \<Rightarrow>
             (let isExpired = (case tv of None \<Rightarrow> False | Some t \<Rightarrow> t < Date_now pf)
              in Inr (isExpired, if isExpired then ExpiredBadge else ExpiresOn tv)))
      else Inr (False, Never))"

text \<open>\<open>v > 0\<close>: ToNumber of the operand, false for NaN.\<close>

definition gt_zero :: "platform \<Rightarrow> jsval \<Rightarrow> js_error + bool" where
  "gt_zero pf v =
     (case ToNumber pf v of
        Inl e \<Rightarrow> Inl e
      | Inr n \<Rightarrow> Inr (num_less (JsFinite 0) n))"

text \<open>\<open>recipients.map(r => r.email)\<close>: only an array has \<open>map\<close>.\<close>

fun map_email :: "jsval list \<Rightarrow> js_error + jsval list" where
  "map_email [] = Inr []"
| "map_email (r # rs) =
     (case get_prop r ''email'' of
        Inl e \<Rightarrow> Inl e
      | Inr em \<Rightarrow> (case map_email rs of Inl e \<Rightarrow> Inl e | Inr ems \<Rightarrow> Inr (em # ems)))"

text \<open>
  The recipients block up to \<open>const emails = ...\<close>: the list of emails to show, or
  \<open>None\<close> when the row is to say Unknown.
\<close>

definition recipients_emails :: "platform \<Rightarrow> jsval \<Rightarrow> js_error + jsval list option" where
  "recipients_emails pf sealFile =
     (case get_prop sealFile ''recipients'' of
        Inl e \<Rightarrow> Inl e
      | Inr rs \<Rightarrow>
          if \<not> truthy rs then Inr None
          else
            (case get_prop rs ''length'' of
               Inl e \<Rightarrow> Inl e
             | Inr len \<Rightarrow>
                 (case gt_zero pf len of
                    Inl e \<Rightarrow> Inl e
                  | Inr False \<Rightarrow> Inr None
                  | Inr True \<Rightarrow>
                      (case rs of
                         JArr xs \<Rightarrow>
                           (case map_email xs of
                              Inl e \<Rightarrow> Inl e
                            | Inr emails \<Rightarrow> Inr (Some emails))
                       | _ \<Rightarrow>
                           Inl (TypeError ''sealFile.recipients.map is not a function'')))))"

text \<open>
  The text of the recipients row: all the emails joined when there are at most two,
  otherwise the first one and the number of the others.
\<close>

definition recipients_text :: "platform \<Rightarrow> jsval list \<Rightarrow> js_error + string" where
  "recipients_text pf emails =
     (if length emails \<le> 2 then array_join pf '', '' emails
      else
        (case ToString pf (hd emails) of
           Inl e \<Rightarrow> Inl e
         | Inr s \<Rightarrow>
             Inr (s @ '' +'' @ NumberToString pf (of_nat (length emails - 1)) @ '' more'')))"

text \<open>\<open>v.toLowerCase()\<close>: only a string has the method.\<close>

definition call_toLowerCase :: "platform \<Rightarrow> jsval \<Rightarrow> js_error + string" where
  "call_toLowerCase pf v =
     (case v of
        JStr s \<Rightarrow> Inr (toLowerCase pf s)
      | JUndefined \<Rightarrow>
          Inl (TypeError ''Cannot read properties of undefined (reading toLowerCase)'')
      | JNull \<Rightarrow> Inl (TypeError ''Cannot read properties of null (reading toLowerCase)'')
      | _ \<Rightarrow> Inl (TypeError ''toLowerCase is not a function''))"

text \<open>
  \<open>recipients.some(r => r.email.toLowerCase() === userEmail.toLowerCase())\<close>: the
  elements in order, stopping at the first match or the first exception.
\<close>

fun some_email_matches :: "platform \<Rightarrow> jsval \<Rightarrow> jsval list \<Rightarrow> js_error + bool" where
  "some_email_matches pf user [] = Inr False"
| "some_email_matches pf user (r # rs) =
     (case get_prop r ''email'' of
        Inl e \<Rightarrow> Inl e
      | Inr em \<Rightarrow>
          (case call_toLowerCase pf em of
             Inl e \<Rightarrow> Inl e
           | Inr a \<Rightarrow>
               (case call_toLowerCase pf user of
                  Inl e \<Rightarrow> Inl e
                | Inr b \<Rightarrow> if a = b then Inr True else some_email_matches pf user rs)))"

text \<open>The user access check: the local \<open>hasAccess\<close>.\<close>

definition access_check :: "platform \<Rightarrow> jsval \<Rightarrow> jsval \<Rightarrow> js_error + bool" where
  "access_check pf user sealFile =
     (if truthy user then
        (case get_prop sealFile ''recipients'' of
           Inl e \<Rightarrow> Inl e
         | Inr rs \<Rightarrow>
             if truthy rs then
               (case rs of
                  JArr xs \<Rightarrow> some_email_matches pf user xs
                | _ \<Rightarrow> Inl (TypeError ''sealFile.recipients.some is not a function''))
             else Inr False)
      else Inr False)"

text \<open>
  displayFileInfo in its three parts, each yielding the popup as far as it got and the
  exception that stopped it, if any.  First the rows of the metadata, in the order of
  the code: file name, size, encryption date, expiry.  It also yields \<open>isExpired\<close>.
\<close>

definition display_metadata ::
  "platform \<Rightarrow> jsval \<Rightarrow> nat \<Rightarrow> popup \<Rightarrow> popup \<times> (js_error + bool)" where
  "display_metadata pf sealFile fileSize p =
     (case get_prop sealFile ''metadata'' of
        Inl e \<Rightarrow> (p, Inl e)
      | Inr md \<Rightarrow>
          (let meta = js_or md (JObj []) in
           case filename_row pf meta of
             Inl e \<Rightarrow> (p, Inl e)
           | Inr name \<Rightarrow>
               (let p1 = p\<lparr>infoFilename := name\<rparr> in
                case size_row pf meta fileSize of
                  Inl e \<Rightarrow> (p1, Inl e)
                | Inr sizeText \<Rightarrow>
                    (let p2 = p1\<lparr>infoSize := sizeText\<rparr> in
                     case date_row pf meta of
                       Inl e \<Rightarrow> (p2, Inl e)
                     | Inr dateText \<Rightarrow>
                         (let p3 = p2\<lparr>infoDate := dateText\<rparr> in
                          case get_prop meta ''expiresAt'' of
                            Inl e \<Rightarrow> (p3, Inl e)
                          | Inr expiresAt \<Rightarrow>
                              (case expiration_check pf expiresAt of
                                 Inl e \<Rightarrow> (p3, Inl e)
                               | Inr (isExpired, shown) \<Rightarrow>
                                   (p3\<lparr>infoExpires := shown\<rparr>, Inr isExpired)))))))"

text \<open>The recipients row: its text, then its title.\<close>

definition display_recipients :: "platform \<Rightarrow> jsval \<Rightarrow> popup \<Rightarrow> popup \<times> js_error option" where
  "display_recipients pf sealFile p =
     (case recipients_emails pf sealFile of
        Inl e \<Rightarrow> (p, Some e)
      | Inr None \<Rightarrow> (p\<lparr>infoRecipients := ''Unknown''\<rparr>, None)
      | Inr (Some emails) \<Rightarrow>
          (case recipients_text pf emails of
             Inl e \<Rightarrow> (p, Some e)
           | Inr shown \<Rightarrow>
               (let p1 = p\<lparr>infoRecipients := shown\<rparr> in
                case array_join pf '', '' emails of
                  Inl e \<Rightarrow> (p1, Some e)
                | Inr title \<Rightarrow> (p1\<lparr>infoRecipientsTitle := title\<rparr>, None))))"

text \<open>The access row, the open button and the switch to the info screen.\<close>

definition display_access :: "bool \<Rightarrow> bool \<Rightarrow> popup \<Rightarrow> popup" where
  "display_access isExpired hasAccess p =
     (let p1 =
            (if truthy (userEmail p) then
               p\<lparr>accessRowHidden := False,
                 infoAccess := (if hasAccess then Authorized else NotRecipient)\<rparr>
             else p\<lparr>accessRowHidden := True\<rparr>);
          p2 =
            (if isExpired then
               p1\<lparr>btnOpenViewerDisabled := True, btnOpenViewerText := ''File has expired''\<rparr>
             else if \<not> hasAccess \<and> truthy (userEmail p) then
               p1\<lparr>btnOpenViewerDisabled := True,
                  btnOpenViewerText := ''You are not a recipient''\<rparr>
             else
               p1\<lparr>btnOpenViewerDisabled := False,
                  btnOpenViewerText := ''Open in Secure Viewer''\<rparr>)
      in p2\<lparr>screen := ScreenInfo\<rparr>)"

definition displayFileInfo ::
  "platform \<Rightarrow> jsval \<Rightarrow> nat \<Rightarrow> popup \<Rightarrow> popup \<times> js_error option" where
  "displayFileInfo pf sealFile fileSize p =
     (case display_metadata pf sealFile fileSize p of
        (p1, Inl e) \<Rightarrow> (p1, Some e)
      | (p1, Inr isExpired) \<Rightarrow>
          (case display_recipients pf sealFile p1 of
             (p2, Some e) \<Rightarrow> (p2, Some e)
           | (p2, None) \<Rightarrow>
               (case access_check pf (userEmail p2) sealFile of
                  Inl e \<Rightarrow> (p2, Some e)
                | Inr hasAccess \<Rightarrow> (display_access isExpired hasAccess p2, None))))"

subsection \<open>handleFile\<close>

text \<open>\<open>!sealFile.version || !sealFile.fileId || !sealFile.payload\<close>, left to right.\<close>

definition structure_invalid :: "jsval \<Rightarrow> js_error + bool" where
  "structure_invalid sealFile =
     (case get_prop sealFile ''version'' of
        Inl e \<Rightarrow> Inl e
      | Inr version \<Rightarrow>
          if \<not> truthy version then Inr True
          else
            (case get_prop sealFile ''fileId'' of
               Inl e \<Rightarrow> Inl e
             | Inr fileId \<Rightarrow>
                 if \<not> truthy fileId then Inr True
                 else
                   (case get_prop sealFile ''payload'' of
                      Inl e \<Rightarrow> Inl e
                    | Inr payload \<Rightarrow> Inr (\<not> truthy payload))))"

text \<open>The catch clause of handleFile.\<close>

definition handleFile_catch :: "js_error \<Rightarrow> popup \<Rightarrow> popup" where
  "handleFile_catch err p =
     (if is_SyntaxError err then showError ''Could not read this file. It may be corrupted.'' p
      else showError (''An unexpected error occurred: '' @ message err) p)"

definition handleFile :: "platform \<Rightarrow> js_file \<Rightarrow> popup \<Rightarrow> popup" where
  "handleFile pf f p =
     (if \<not> endsWith (file_name f) ''.seal'' then
        showError ''Please select a .seal file. This file type is not supported.'' p
      else if file_size f > 10 * 1024 * 1024 then
        showError
          ''This file is too large to open in the extension. Please use seal.email/viewer instead.''
          p
      else
        (case file_text f of
           Inl err \<Rightarrow> handleFile_catch err p
         | Inr text \<Rightarrow>
             if \<not> startsWith text ''{'' then
               showError ''This file is not a valid .seal file.'' p
             else
               (case JSON_parse pf text of
                  Inl err \<Rightarrow> handleFile_catch err p
                | Inr sealFile \<Rightarrow>
                    (case structure_invalid sealFile of
                       Inl err \<Rightarrow> handleFile_catch err p
                     | Inr True \<Rightarrow>
                         showError
                           ''This file is not a valid .seal file. It may be corrupted or incomplete.''
                           p
                     | Inr False \<Rightarrow>
                         (case displayFileInfo pf sealFile (file_size f)
                                 (p\<lparr>currentSealFile := Some sealFile,
                                    currentRawText := Some text\<rparr>) of
                            (p', Some err) \<Rightarrow> handleFile_catch err p'
                          | (p', None) \<Rightarrow> p')))))"

section \<open>Vocabulary of the properties\<close>


text \<open>
  The value of \<open>meta.k\<close> for an envelope with the given properties, where \<open>meta\<close> is
  \<open>sealFile.metadata || {}\<close>.
\<close>

definition metadata_field :: "(string \<times> jsval) list \<Rightarrow> string \<Rightarrow> jsval" where
  "metadata_field kvs k =
     (case get_prop (js_or (obj_prop kvs ''metadata'') (JObj [])) k of
        Inr v \<Rightarrow> v
      | Inl e \<Rightarrow> JUndefined)"

text \<open>
  A well-formed envelope: the four metadata fields are primitive values (strings,
  numbers and the like) or absent, and the recipients are an array of objects whose
  \<open>email\<close> is a string, or there is no recipients property.  The current identity is a
  string or null.
\<close>

definition is_primitive :: "jsval \<Rightarrow> bool" where
  "is_primitive v = (case v of JArr xs \<Rightarrow> False | JObj kvs \<Rightarrow> False | _ \<Rightarrow> True)"

definition wf_metadata :: "(string \<times> jsval) list \<Rightarrow> bool" where
  "wf_metadata kvs =
     (is_primitive (metadata_field kvs ''originalName'') \<and>
      is_primitive (metadata_field kvs ''originalSize'') \<and>
      is_primitive (metadata_field kvs ''encryptedAt'') \<and>
      is_primitive (metadata_field kvs ''expiresAt''))"

definition wf_recipient :: "jsval \<Rightarrow> bool" where
  "wf_recipient r = (case get_prop r ''email'' of Inr (JStr s) \<Rightarrow> True | _ \<Rightarrow> False)"

definition recipient_email :: "jsval \<Rightarrow> string" where
  "recipient_email r = (case get_prop r ''email'' of Inr (JStr s) \<Rightarrow> s | _ \<Rightarrow> [])"

definition wf_recipients :: "jsval \<Rightarrow> bool" where
  "wf_recipients v =
     (case v of JUndefined \<Rightarrow> True | JArr rs \<Rightarrow> list_all wf_recipient rs | _ \<Rightarrow> False)"

definition recipient_list :: "jsval \<Rightarrow> jsval list" where
  "recipient_list v = (case v of JArr rs \<Rightarrow> rs | _ \<Rightarrow> [])"

definition wf_identity :: "jsval \<Rightarrow> bool" where
  "wf_identity v = (case v of JNull \<Rightarrow> True | JStr u \<Rightarrow> True | _ \<Rightarrow> False)"

definition identity_email :: "jsval \<Rightarrow> string" where
  "identity_email v = (case v of JStr u \<Rightarrow> u | _ \<Rightarrow> [])"

subsection \<open>Example inputs\<close>

text \<open>
  Concrete inputs for the examples: \<open>toLowerCase\<close> on ASCII letters; an envelope that
  expired in 2020 with one recipient; a platform whose parser yields a given document,
  that reads the one date of the example, whose clock stands in 2023 and whose
  formatting functions yield fixed strings; a popup on the drop screen for a given
  identity (the info elements hold placeholders that displayFileInfo overwrites); a
  small dropped file.
\<close>

definition ascii_toLowerCase :: "string \<Rightarrow> string" where
  "ascii_toLowerCase s =
     map (\<lambda>c. case map_of (zip ''ABCDEFGHIJKLMNOPQRSTUVWXYZ'' ''abcdefghijklmnopqrstuvwxyz'') c of
                 Some d \<Rightarrow> d | None \<Rightarrow> c) s"

definition example_envelope :: "(string \<times> jsval) list" where
  "example_envelope =
     [(''version'', JNum 1), (''fileId'', JStr ''f1''), (''payload'', JStr ''ct''),
      (''metadata'', JObj [(''expiresAt'', JStr ''2020-01-01T00:00:00.000Z'')]),
      (''recipients'', JArr [JObj [(''email'', JStr ''u@x.com'')]])]"

definition example_platform :: "jsval \<Rightarrow> platform" where
  "example_platform parsed =
     \<lparr>JSON_parse = (\<lambda>text. Inr parsed),
      Date_parse =
        (\<lambda>s. if s = ''2020-01-01T00:00:00.000Z'' then Some 1577836800000 else None),
      Date_now = 1700000000000,
      StringToNumber = (\<lambda>s. JsNaN),
      NumberToString = (\<lambda>n. ''n''),
      toFixed1 = (\<lambda>n. ''n.0''),
      toLocaleDateString = (\<lambda>tv. ''date''),
      toLowerCase = ascii_toLowerCase\<rparr>"

definition example_popup :: "jsval \<Rightarrow> popup" where
  "example_popup user =
     \<lparr>currentSealFile = None, currentRawText = None, userEmail = user, screen = ScreenDrop,
      errorMessage = [], infoFilename = [], infoSize = [], infoDate = [],
      infoExpires = Never, infoRecipients = [], infoRecipientsTitle = [],
      accessRowHidden = True, infoAccess = NotRecipient, btnOpenViewerDisabled = False,
      btnOpenViewerText = []\<rparr>"

definition example_file :: js_file where
  "example_file = \<lparr>file_name = ''report.pdf.seal'', file_size = 200, file_text = Inr ''{...}''\<rparr>"

section \<open>Properties of the background service worker\<close>

subsection \<open>The credential store\<close>

lemma storeAuth_truthy:
  "truthy token \<Longrightarrow> truthy email \<Longrightarrow>
     storeAuth token email st = st(''authToken'' \<mapsto> token, ''userEmail'' \<mapsto> email)"
  by (auto simp: storeAuth_def)

lemma clearAuth_eq: "clearAuth st = st(''authToken'' := None, ''userEmail'' := None)"
  by (simp add: clearAuth_def)

lemma stored_field_authToken:
  "stored_field st ''authToken'' = (case st ''authToken'' of None \<Rightarrow> JUndefined | Some v \<Rightarrow> v)"
  by (simp add: stored_field_def getStoredAuth_def obj_prop_def split: option.splits)

lemma stored_field_userEmail:
  "stored_field st ''userEmail'' = (case st ''userEmail'' of None \<Rightarrow> JUndefined | Some v \<Rightarrow> v)"
  by (simp add: stored_field_def getStoredAuth_def obj_prop_def split: option.splits)

lemma present_clearAuth: "\<not> token_present (clearAuth st) \<and> \<not> email_present (clearAuth st)"
  by (simp add: token_present_def email_present_def stored_field_authToken
      stored_field_userEmail clearAuth_eq)

lemma present_storeAuth:
  "truthy t \<Longrightarrow> truthy e \<Longrightarrow> token_present (storeAuth t e st) \<and> email_present (storeAuth t e st)"
  by (simp add: token_present_def email_present_def stored_field_authToken
      stored_field_userEmail storeAuth_truthy)

lemma paired_clearAuth: "paired (clearAuth st)"
  using present_clearAuth [of st] by (simp add: paired_def)

lemma paired_storeAuth: "truthy t \<Longrightarrow> truthy e \<Longrightarrow> paired (storeAuth t e st)"
  using present_storeAuth [of t e st] by (simp add: paired_def)

subsection \<open>External messages\<close>

text \<open>
  Claim C1.  An external message whose sender origin is neither \<open>https://seal.email\<close> nor
  \<open>http://localhost:3000\<close> is answered with the error \<open>Unauthorized origin\<close>, the
  listener returns without keeping the channel open, and the credential store is
  unchanged.  The outcome is the same for every message, whatever its \<open>type\<close> is and
  also when it has none: the type is not inspected.
\<close>

theorem external_origin_gate:
  assumes "senderOrigin URL_origin sndr = Inr origin"
      and "origin \<noteq> ''https://seal.email''" and "origin \<noteq> ''http://localhost:3000''"
  shows "onMessageExternal URL_origin version msg sndr st =
           \<lparr>response_sent = Some (JObj [(''error'', JStr ''Unauthorized origin'')]),
            keep_open = False, thrown = None, ext_storage_after = st\<rparr>"
  using assms by (simp add: onMessageExternal_def allowedOrigins_def)

text \<open>
  A valid hand-off message sent from \<open>https://evil.example\<close> is rejected and stores
  nothing.
\<close>

theorem external_origin_gate_witness:
  "onMessageExternal (\<lambda>u. Inr ''https://evil.example'') ''1.0.0''
     (JObj [(''type'', JStr ''SEAL_AUTH_TOKEN''), (''token'', JStr ''tok''),
            (''email'', JStr ''u@x.com'')])
     \<lparr>sender_url = Some ''https://evil.example/page''\<rparr> Map.empty =
   \<lparr>response_sent = Some (JObj [(''error'', JStr ''Unauthorized origin'')]),
    keep_open = False, thrown = None, ext_storage_after = Map.empty\<rparr>"
  by (rule external_origin_gate [where origin = "''https://evil.example''"])
     (simp_all add: senderOrigin_def)

text \<open>
  Claim C2.  For a \<open>SEAL_AUTH_TOKEN\<close> message from an allow-listed origin: when the token
  and the email are both present (truthy, the test of the code), the answer is
  \<open>success: true\<close> and the store holds exactly this pair under \<open>authToken\<close> and
  \<open>userEmail\<close>; otherwise, and in particular when either property is absent from the
  message, the answer is the error \<open>Missing token or email\<close> and the store is unchanged.
\<close>

theorem auth_token_handoff:
  assumes "senderOrigin URL_origin sndr = Inr origin"
      and "origin = ''https://seal.email'' \<or> origin = ''http://localhost:3000''"
      and "obj_prop kvs ''type'' = JStr ''SEAL_AUTH_TOKEN''"
  shows "(truthy (obj_prop kvs ''token'') \<and> truthy (obj_prop kvs ''email'') \<longrightarrow>
            onMessageExternal URL_origin version (JObj kvs) sndr st =
              \<lparr>response_sent = Some (JObj [(''success'', JBool True)]),
               keep_open = True, thrown = None,
               ext_storage_after =
                 st(''authToken'' \<mapsto> obj_prop kvs ''token'',
                    ''userEmail'' \<mapsto> obj_prop kvs ''email'')\<rparr>)
       \<and> (\<not> (truthy (obj_prop kvs ''token'') \<and> truthy (obj_prop kvs ''email'')) \<longrightarrow>
            onMessageExternal URL_origin version (JObj kvs) sndr st =
              \<lparr>response_sent = Some (JObj [(''error'', JStr ''Missing token or email'')]),
               keep_open = True, thrown = None, ext_storage_after = st\<rparr>)
       \<and> (map_of kvs ''token'' = None \<or> map_of kvs ''email'' = None \<longrightarrow>
            onMessageExternal URL_origin version (JObj kvs) sndr st =
              \<lparr>response_sent = Some (JObj [(''error'', JStr ''Missing token or email'')]),
               keep_open = True, thrown = None, ext_storage_after = st\<rparr>)"
  using assms
  by (auto simp: onMessageExternal_def allowedOrigins_def destructure2_def strict_eq_def
        storeAuth_truthy obj_prop_def)

text \<open>A hand-off with both fields is stored; one without the email is rejected.\<close>

theorem auth_token_handoff_witness:
  "onMessageExternal (\<lambda>u. Inr ''https://seal.email'') ''1.0.0''
     (JObj [(''type'', JStr ''SEAL_AUTH_TOKEN''), (''token'', JStr ''tok''),
            (''email'', JStr ''u@x.com'')])
     \<lparr>sender_url = Some ''https://seal.email/login''\<rparr> Map.empty =
   \<lparr>response_sent = Some (JObj [(''success'', JBool True)]),
    keep_open = True, thrown = None,
    ext_storage_after = [''authToken'' \<mapsto> JStr ''tok'', ''userEmail'' \<mapsto> JStr ''u@x.com'']\<rparr>
   \<and> onMessageExternal (\<lambda>u. Inr ''https://seal.email'') ''1.0.0''
     (JObj [(''type'', JStr ''SEAL_AUTH_TOKEN''), (''token'', JStr ''tok'')])
     \<lparr>sender_url = Some ''https://seal.email/login''\<rparr> Map.empty =
   \<lparr>response_sent = Some (JObj [(''error'', JStr ''Missing token or email'')]),
    keep_open = True, thrown = None, ext_storage_after = Map.empty\<rparr>"
  using auth_token_handoff
    [where URL_origin = "\<lambda>u. Inr ''https://seal.email''" and origin = "''https://seal.email''"
       and sndr = "\<lparr>sender_url = Some ''https://seal.email/login''\<rparr>"
       and kvs = "[(''type'', JStr ''SEAL_AUTH_TOKEN''), (''token'', JStr ''tok''),
                   (''email'', JStr ''u@x.com'')]"
       and version = "''1.0.0''" and st = Map.empty]
    auth_token_handoff
    [where URL_origin = "\<lambda>u. Inr ''https://seal.email''" and origin = "''https://seal.email''"
       and sndr = "\<lparr>sender_url = Some ''https://seal.email/login''\<rparr>"
       and kvs = "[(''type'', JStr ''SEAL_AUTH_TOKEN''), (''token'', JStr ''tok'')]"
       and version = "''1.0.0''" and st = Map.empty]
  by (simp add: senderOrigin_def obj_prop_def)

lemma paired_onMessageExternal:
  "paired st \<Longrightarrow> paired (ext_storage_after (onMessageExternal URL_origin version msg sndr st))"
  by (auto simp: onMessageExternal_def paired_clearAuth paired_storeAuth
      split: sum.splits prod.splits)

subsection \<open>checkAuth\<close>

lemma reconcile_cases:
  "checkAuth_reconcile data st = Inr st' \<Longrightarrow>
     st' = st \<and> truthy (stored_field st ''userEmail'') \<or> st' = clearAuth st \<or>
     (\<exists>email. truthy email \<and>
        st' = storeAuth (js_or (stored_field st ''authToken'') (JStr [])) email st)"
  by (auto simp: checkAuth_reconcile_def Let_def stored_field_def strict_eq_def
      split: sum.splits if_splits jsval.splits)

lemma checkAuth_after_cases:
  "storage_after (checkAuth reply st) = st \<or>
   storage_after (checkAuth reply st) = clearAuth st \<or>
   (\<exists>email. truthy email \<and>
      storage_after (checkAuth reply st) =
        storeAuth (js_or (stored_field st ''authToken'') (JStr [])) email st)"
  using reconcile_cases
  by (fastforce simp: checkAuth_def Let_def split: sum.splits)

lemma paired_checkAuth:
  assumes "token_present st" and "paired st"
  shows "paired (storage_after (checkAuth reply st))"
proof -
  have tok: "js_or (stored_field st ''authToken'') (JStr []) = stored_field st ''authToken''"
    using assms(1) by (simp add: js_or_def token_present_def)
  show ?thesis
    using checkAuth_after_cases [of reply st] assms
    by (auto simp: tok paired_clearAuth token_present_def intro: paired_storeAuth)
qed

lemma reconcile_writes:
  assumes "truthy (obj_prop dkvs ''authenticated'')" and "truthy (obj_prop dkvs ''email'')"
      and "\<not> strict_eq (stored_field st ''userEmail'') (obj_prop dkvs ''email'')"
  shows "checkAuth_reconcile (JObj dkvs) st =
           Inr (st(''authToken'' \<mapsto> js_or (stored_field st ''authToken'') (JStr []),
                   ''userEmail'' \<mapsto> obj_prop dkvs ''email''))"
proof -
  have "truthy (js_or (stored_field st ''authToken'') (JStr [])) \<or>
        js_or (stored_field st ''authToken'') (JStr []) = JStr []"
    by (simp add: js_or_def)
  then have "js_or (stored_field st ''authToken'') (JStr []) \<noteq> JUndefined"
    by auto
  moreover have "obj_prop dkvs ''email'' \<noteq> JUndefined"
    using assms(2) by auto
  ultimately show ?thesis
    using assms by (simp add: checkAuth_reconcile_def Let_def stored_field_def storeAuth_def)
qed

lemma checkAuth_writes:
  assumes "ok resp" and "json resp = Inr (JObj dkvs)"
      and "truthy (obj_prop dkvs ''authenticated'')" and "truthy (obj_prop dkvs ''email'')"
      and "\<not> strict_eq (stored_field st ''userEmail'') (obj_prop dkvs ''email'')"
  shows "storage_after (checkAuth (Inr resp) st) =
           st(''authToken'' \<mapsto> js_or (stored_field st ''authToken'') (JStr []),
              ''userEmail'' \<mapsto> obj_prop dkvs ''email'')"
  using assms(1,2) reconcile_writes [OF assms(3,4,5)]
  by (simp add: checkAuth_def Let_def)

text \<open>
  Claim C4, as the code has it.  When the server answers authenticated with an email
  that differs from the cached one, checkAuth writes that email; the token field keeps
  its value when the stored token is truthy, and is written as the empty string when no
  token (or a falsy one) is stored; no other key of the store changes.
\<close>

theorem checkAuth_reconciles_email:
  assumes "ok resp" and "json resp = Inr (JObj dkvs)"
      and "truthy (obj_prop dkvs ''authenticated'')" and "truthy (obj_prop dkvs ''email'')"
      and "\<not> strict_eq (stored_field st ''userEmail'') (obj_prop dkvs ''email'')"
  shows "stored_field (storage_after (checkAuth (Inr resp) st)) ''userEmail'' =
           obj_prop dkvs ''email''
       \<and> stored_field (storage_after (checkAuth (Inr resp) st)) ''authToken'' =
           (if truthy (stored_field st ''authToken'') then stored_field st ''authToken''
            else JStr [])
       \<and> (truthy (stored_field st ''authToken'') \<longrightarrow>
            storage_after (checkAuth (Inr resp) st) ''authToken'' = st ''authToken'')
       \<and> (\<forall>k. k \<noteq> ''authToken'' \<and> k \<noteq> ''userEmail'' \<longrightarrow>
            storage_after (checkAuth (Inr resp) st) k = st k)"
  unfolding checkAuth_writes [OF assms]
  by (auto simp: stored_field_authToken stored_field_userEmail js_or_def split: option.splits)

text \<open>A stored token \<open>tok\<close> survives the refresh of the email.\<close>

theorem checkAuth_reconciles_email_witness:
  "stored_field (storage_after (checkAuth
      (Inr \<lparr>status = 200,
            json = Inr (JObj [(''authenticated'', JBool True), (''email'', JStr ''new@x.com'')])\<rparr>)
      [''authToken'' \<mapsto> JStr ''tok'', ''userEmail'' \<mapsto> JStr ''old@x.com''])) ''userEmail'' =
     JStr ''new@x.com''
   \<and> stored_field (storage_after (checkAuth
      (Inr \<lparr>status = 200,
            json = Inr (JObj [(''authenticated'', JBool True), (''email'', JStr ''new@x.com'')])\<rparr>)
      [''authToken'' \<mapsto> JStr ''tok'', ''userEmail'' \<mapsto> JStr ''old@x.com''])) ''authToken'' =
     JStr ''tok''"
  using checkAuth_reconciles_email
    [of "\<lparr>status = 200,
          json = Inr (JObj [(''authenticated'', JBool True), (''email'', JStr ''new@x.com'')])\<rparr>"
        "[(''authenticated'', JBool True), (''email'', JStr ''new@x.com'')]"
        "[''authToken'' \<mapsto> JStr ''tok'', ''userEmail'' \<mapsto> JStr ''old@x.com'']"]
  by (simp add: ok_def obj_prop_def strict_eq_def stored_field_authToken stored_field_userEmail)

text \<open>
  Claim C4 as stated fails on a store with no token: before the call the token field is
  not stored, after it the field holds the empty string.
\<close>

theorem checkAuth_token_field_changed:
  "storage_after (checkAuth
      (Inr \<lparr>status = 200,
            json = Inr (JObj [(''authenticated'', JBool True), (''email'', JStr ''a@x.com'')])\<rparr>)
      Map.empty) ''authToken'' = Some (JStr [])
   \<and> (Map.empty :: storage) ''authToken'' = None
   \<and> stored_field (storage_after (checkAuth
      (Inr \<lparr>status = 200,
            json = Inr (JObj [(''authenticated'', JBool True), (''email'', JStr ''a@x.com'')])\<rparr>)
      Map.empty)) ''authToken'' \<noteq> stored_field Map.empty ''authToken''"
  by (simp add: stored_field_def getStoredAuth_def obj_prop_def checkAuth_def ok_def
      checkAuth_reconcile_def strict_eq_def storeAuth_def js_or_def Let_def)

subsection \<open>loginWithCredentials\<close>

lemma login_success:
  assumes "truthy (obj_prop kvs ''email'')" and "truthy (obj_prop kvs ''password'')"
      and "ok resp" and "json resp = Inr (JObj dkvs)"
      and "truthy (obj_prop dkvs ''authenticated'')"
  shows "loginWithCredentials (JObj kvs) (Inr resp) st =
           Inr \<lparr>returned = JObj [(''authenticated'', JBool True),
                                 (''email'', obj_prop dkvs ''email'')],
                storage_after = storeAuth (obj_prop dkvs ''token'') (obj_prop dkvs ''email'') st,
                requests = [login_request (obj_prop kvs ''email'') (obj_prop kvs ''password'')]\<rparr>"
  using assms by (simp add: loginWithCredentials_def destructure2_def login_try_def Let_def)








subsection \<open>Pairing of token and email\<close>

text \<open>
  Claim C3, as the code has it.  clearAuth leaves the token and the email both absent;
  storeAuth with a truthy token and a truthy email leaves both present, and so does a
  login whose response carries both; every external message, the logout handler, and
  checkAuth on a store that holds a token keep the two paired.  The reconciliation of
  checkAuth on a store that holds no token persists the server-confirmed email together
  with the empty string as token: the email is present and the token is not.
\<close>

theorem credential_pairing:
  "(\<not> token_present (clearAuth st) \<and> \<not> email_present (clearAuth st))
   \<and> (truthy t \<and> truthy e \<longrightarrow>
        token_present (storeAuth t e st) \<and> email_present (storeAuth t e st))
   \<and> (paired st \<longrightarrow>
        paired (ext_storage_after (onMessageExternal URL_origin version msg sndr st)))
   \<and> paired (storage_after (logout st))
   \<and> (token_present st \<and> paired st \<longrightarrow> paired (storage_after (checkAuth reply st)))
   \<and> (truthy (obj_prop kvs ''email'') \<and> truthy (obj_prop kvs ''password'') \<and>
        ok resp \<and> json resp = Inr (JObj dkvs) \<and> truthy (obj_prop dkvs ''authenticated'') \<and>
        truthy (obj_prop dkvs ''token'') \<and> truthy (obj_prop dkvs ''email'') \<longrightarrow>
        token_present (storage_after (projr (loginWithCredentials (JObj kvs) (Inr resp) st))) \<and>
        email_present (storage_after (projr (loginWithCredentials (JObj kvs) (Inr resp) st))))
   \<and> (\<not> token_present st \<and> ok resp \<and> json resp = Inr (JObj dkvs) \<and>
        truthy (obj_prop dkvs ''authenticated'') \<and> truthy (obj_prop dkvs ''email'') \<and>
        \<not> strict_eq (stored_field st ''userEmail'') (obj_prop dkvs ''email'') \<longrightarrow>
        email_present (storage_after (checkAuth (Inr resp) st)) \<and>
        \<not> token_present (storage_after (checkAuth (Inr resp) st)) \<and>
        storage_after (checkAuth (Inr resp) st) ''authToken'' = Some (JStr []))"
proof -
  have "email_present (storage_after (checkAuth (Inr resp) st)) \<and>
        \<not> token_present (storage_after (checkAuth (Inr resp) st)) \<and>
        storage_after (checkAuth (Inr resp) st) ''authToken'' = Some (JStr [])"
    if "\<not> token_present st" "ok resp" "json resp = Inr (JObj dkvs)"
       "truthy (obj_prop dkvs ''authenticated'')" "truthy (obj_prop dkvs ''email'')"
       "\<not> strict_eq (stored_field st ''userEmail'') (obj_prop dkvs ''email'')"
    unfolding checkAuth_writes [OF that(2-6)]
    using that(1,5)
    by (simp add: token_present_def email_present_def stored_field_authToken
        stored_field_userEmail js_or_def)
  moreover have "token_present
          (storage_after (projr (loginWithCredentials (JObj kvs) (Inr resp) st))) \<and>
        email_present (storage_after (projr (loginWithCredentials (JObj kvs) (Inr resp) st)))"
    if "truthy (obj_prop kvs ''email'')" "truthy (obj_prop kvs ''password'')" "ok resp"
       "json resp = Inr (JObj dkvs)" "truthy (obj_prop dkvs ''authenticated'')"
       "truthy (obj_prop dkvs ''token'')" "truthy (obj_prop dkvs ''email'')"
    unfolding login_success [OF that(1-5)]
    using present_storeAuth [OF that(6,7)] by simp
  ultimately show ?thesis
    using present_clearAuth present_storeAuth paired_onMessageExternal paired_checkAuth
    by (auto simp: logout_def paired_clearAuth)
qed

text \<open>
  checkAuth on a full store keeps the pair, storeAuth with both values stores both, an
  external logout keeps the pair, and checkAuth on the empty store leaves no token.
\<close>

theorem credential_pairing_witness:
  "paired (storage_after (checkAuth
      (Inr \<lparr>status = 200,
            json = Inr (JObj [(''authenticated'', JBool True), (''email'', JStr ''new@x.com'')])\<rparr>)
      [''authToken'' \<mapsto> JStr ''tok'', ''userEmail'' \<mapsto> JStr ''old@x.com'']))
   \<and> token_present (storeAuth (JStr ''tok'') (JStr ''u@x.com'') Map.empty)
   \<and> email_present (storeAuth (JStr ''tok'') (JStr ''u@x.com'') Map.empty)
   \<and> paired (ext_storage_after (onMessageExternal (\<lambda>u. Inr ''https://seal.email'') ''1.0.0''
        (JObj [(''type'', JStr ''SEAL_LOGOUT'')]) \<lparr>sender_url = Some ''https://seal.email/app''\<rparr>
        [''authToken'' \<mapsto> JStr ''tok'', ''userEmail'' \<mapsto> JStr ''old@x.com'']))
   \<and> \<not> token_present (storage_after (checkAuth
      (Inr \<lparr>status = 200,
            json = Inr (JObj [(''authenticated'', JBool True), (''email'', JStr ''new@x.com'')])\<rparr>)
      Map.empty))"
proof -
  let ?resp = "\<lparr>status = 200,
      json = Inr (JObj [(''authenticated'', JBool True), (''email'', JStr ''new@x.com'')])\<rparr>"
  let ?st = "[''authToken'' \<mapsto> JStr ''tok'', ''userEmail'' \<mapsto> JStr ''old@x.com'']"
  have full: "token_present ?st \<and> paired ?st"
    by (simp add: paired_def token_present_def email_present_def stored_field_authToken
        stored_field_userEmail)
  note a = credential_pairing
    [where st = "?st" and t = "JStr ''tok''" and e = "JStr ''u@x.com''"
       and URL_origin = "\<lambda>u. Inr ''https://seal.email''" and version = "''1.0.0''"
       and msg = "JObj [(''type'', JStr ''SEAL_LOGOUT'')]"
       and sndr = "\<lparr>sender_url = Some ''https://seal.email/app''\<rparr>"
       and reply = "Inr ?resp" and resp = ?resp
       and dkvs = "[(''authenticated'', JBool True), (''email'', JStr ''new@x.com'')]"]
  note b = credential_pairing
    [where st = Map.empty and t = "JStr ''tok''" and e = "JStr ''u@x.com''"
       and resp = ?resp
       and dkvs = "[(''authenticated'', JBool True), (''email'', JStr ''new@x.com'')]"]
  have empty: "\<not> token_present Map.empty"
    by (simp add: token_present_def stored_field_authToken)
  show ?thesis
    using a b full empty
    by (simp add: ok_def obj_prop_def strict_eq_def stored_field_userEmail)
qed

text \<open>
  Claim C3 as stated fails: on the empty store, which is paired, an authenticated
  answer makes checkAuth persist the email without a token.
\<close>

theorem credential_pairing_broken_by_checkAuth:
  "paired Map.empty \<and>
   email_present (storage_after (checkAuth
      (Inr \<lparr>status = 200,
            json = Inr (JObj [(''authenticated'', JBool True), (''email'', JStr ''u@x.com'')])\<rparr>)
      Map.empty)) \<and>
   \<not> token_present (storage_after (checkAuth
      (Inr \<lparr>status = 200,
            json = Inr (JObj [(''authenticated'', JBool True), (''email'', JStr ''u@x.com'')])\<rparr>)
      Map.empty))"
  by (simp add: paired_def token_present_def email_present_def stored_field_def
      getStoredAuth_def obj_prop_def checkAuth_def ok_def checkAuth_reconcile_def
      strict_eq_def storeAuth_def js_or_def Let_def)

subsection \<open>fetchPublicKey\<close>

text \<open>
  Claim C5.  A 404 answer makes fetchPublicKey resolve with \<open>found: false\<close> and the
  email, with no \<open>error\<close> property; every other non-success answer makes it resolve with
  \<open>found: false\<close>, the email and the \<open>error\<close> message \<open>Failed to fetch key for\<close>
  followed by the email, so the caller receives the failure.  The store is unchanged.
\<close>

theorem fetchPublicKey_non_success:
  "(status resp = 404 \<longrightarrow>
      fetchPublicKey encodeURIComponent (Inr resp) email st =
        \<lparr>returned = JObj [(''found'', JBool False), (''email'', JStr email)],
         storage_after = st,
         requests = [public_key_request encodeURIComponent email st]\<rparr>)
   \<and> (\<not> ok resp \<and> status resp \<noteq> 404 \<longrightarrow>
      fetchPublicKey encodeURIComponent (Inr resp) email st =
        \<lparr>returned = JObj [(''found'', JBool False), (''email'', JStr email),
                           (''error'', JStr (''Failed to fetch key for '' @ email))],
         storage_after = st,
         requests = [public_key_request encodeURIComponent email st]\<rparr>)"
  by (simp add: fetchPublicKey_def fetchPublicKey_try_def fetchPublicKey_catch_def ok_def)

text \<open>A 404 and a 500 answer.\<close>

theorem fetchPublicKey_non_success_witness:
  "fetchPublicKey (\<lambda>s. s) (Inr \<lparr>status = 404, json = Inr JNull\<rparr>) ''missing@x'' Map.empty =
     \<lparr>returned = JObj [(''found'', JBool False), (''email'', JStr ''missing@x'')],
      storage_after = Map.empty,
      requests = [public_key_request (\<lambda>s. s) ''missing@x'' Map.empty]\<rparr>
   \<and> returned (fetchPublicKey (\<lambda>s. s) (Inr \<lparr>status = 500, json = Inr JNull\<rparr>) ''a@x'' Map.empty) =
     JObj [(''found'', JBool False), (''email'', JStr ''a@x''),
           (''error'', JStr ''Failed to fetch key for a@x'')]"
  using fetchPublicKey_non_success
          [of "\<lparr>status = 404, json = Inr JNull\<rparr>" "\<lambda>s. s" "''missing@x''" Map.empty]
        fetchPublicKey_non_success
          [of "\<lparr>status = 500, json = Inr JNull\<rparr>" "\<lambda>s. s" "''a@x''" Map.empty]
  by (simp add: ok_def)

section \<open>Properties of the popup\<close>

subsection \<open>Conversions of primitive values\<close>

lemma get_prop_truthy: "truthy v \<Longrightarrow> \<not> isl (get_prop v k)"
  by (cases v) auto

lemma metadata_field_read:
  "get_prop (js_or (obj_prop kvs ''metadata'') (JObj [])) k = Inr (metadata_field kvs k)"
proof -
  have "truthy (js_or (obj_prop kvs ''metadata'') (JObj []))"
    by (simp add: js_or_def)
  then have "\<not> isl (get_prop (js_or (obj_prop kvs ''metadata'') (JObj [])) k)"
    by (rule get_prop_truthy)
  then show ?thesis
    by (cases "get_prop (js_or (obj_prop kvs ''metadata'') (JObj [])) k")
       (simp_all add: metadata_field_def)
qed

lemma ToString_primitive: "is_primitive v \<Longrightarrow> \<not> isl (ToString pf v)"
  by (cases v) (simp_all add: is_primitive_def)

lemma ToNumber_primitive: "is_primitive v \<Longrightarrow> \<not> isl (ToNumber pf v)"
  by (cases v) (simp_all add: is_primitive_def ToNumber_def)

lemma new_Date_primitive: "is_primitive v \<Longrightarrow> \<not> isl (new_Date pf v)"
  by (cases v) (simp_all add: is_primitive_def new_Date_def ToNumber_def)

lemma is_primitive_js_or: "is_primitive a \<Longrightarrow> is_primitive b \<Longrightarrow> is_primitive (js_or a b)"
  by (simp add: js_or_def)

lemma formatFileSize_primitive: "is_primitive v \<Longrightarrow> \<not> isl (formatFileSize pf v)"
  using ToString_primitive [of v pf] ToNumber_primitive [of v pf]
  by (auto simp: formatFileSize_def split: sum.splits)

lemma filename_row_wf:
  "is_primitive (metadata_field kvs ''originalName'') \<Longrightarrow>
     \<not> isl (filename_row pf (js_or (obj_prop kvs ''metadata'') (JObj [])))"
proof -
  assume "is_primitive (metadata_field kvs ''originalName'')"
  moreover have "is_primitive (JStr ''Unknown file'')"
    by (simp add: is_primitive_def)
  ultimately have "is_primitive (js_or (metadata_field kvs ''originalName'') (JStr ''Unknown file''))"
    by (rule is_primitive_js_or)
  then show ?thesis
    by (simp add: filename_row_def metadata_field_read ToString_primitive)
qed

lemma size_row_wf:
  "is_primitive (metadata_field kvs ''originalSize'') \<Longrightarrow>
     \<not> isl (size_row pf (js_or (obj_prop kvs ''metadata'') (JObj [])) fileSize)"
proof -
  assume "is_primitive (metadata_field kvs ''originalSize'')"
  moreover have "is_primitive (JNum (of_nat fileSize))"
    by (simp add: is_primitive_def)
  ultimately have
    "is_primitive (js_or (metadata_field kvs ''originalSize'') (JNum (of_nat fileSize)))"
    by (rule is_primitive_js_or)
  then show ?thesis
    by (simp add: size_row_def metadata_field_read formatFileSize_primitive)
qed

lemma date_row_wf:
  "is_primitive (metadata_field kvs ''encryptedAt'') \<Longrightarrow>
     \<not> isl (date_row pf (js_or (obj_prop kvs ''metadata'') (JObj [])))"
  using new_Date_primitive [of "metadata_field kvs ''encryptedAt''" pf]
  by (auto simp: date_row_def metadata_field_read split: sum.splits)

lemma expiration_check_primitive:
  assumes "is_primitive expiresAt"
  shows "expiration_check pf expiresAt =
     Inr (truthy expiresAt \<and> (\<exists>t. new_Date pf expiresAt = Inr (Some t) \<and> t < Date_now pf),
          if \<not> truthy expiresAt then Never
          else if (\<exists>t. new_Date pf expiresAt = Inr (Some t) \<and> t < Date_now pf)
               then ExpiredBadge
               else ExpiresOn (projr (new_Date pf expiresAt)))"
  using new_Date_primitive [OF assms, of pf]
  by (cases "new_Date pf expiresAt") (auto simp: expiration_check_def Let_def split: option.splits)

subsection \<open>displayFileInfo\<close>

lemma display_metadata_wf:
  assumes "wf_metadata kvs"
  shows "display_metadata pf (JObj kvs) fileSize p =
     (p\<lparr>infoFilename := projr (filename_row pf (js_or (obj_prop kvs ''metadata'') (JObj []))),
        infoSize := projr (size_row pf (js_or (obj_prop kvs ''metadata'') (JObj [])) fileSize),
        infoDate := projr (date_row pf (js_or (obj_prop kvs ''metadata'') (JObj []))),
        infoExpires := snd (projr (expiration_check pf (metadata_field kvs ''expiresAt'')))\<rparr>,
      Inr (fst (projr (expiration_check pf (metadata_field kvs ''expiresAt'')))))"
proof -
  let ?meta = "js_or (obj_prop kvs ''metadata'') (JObj [])"
  obtain a where a: "filename_row pf ?meta = Inr a"
    using filename_row_wf [of kvs pf] assms
    by (cases "filename_row pf ?meta") (auto simp: wf_metadata_def)
  obtain b where b: "size_row pf ?meta fileSize = Inr b"
    using size_row_wf [of kvs pf fileSize] assms
    by (cases "size_row pf ?meta fileSize") (auto simp: wf_metadata_def)
  obtain c where c: "date_row pf ?meta = Inr c"
    using date_row_wf [of kvs pf] assms
    by (cases "date_row pf ?meta") (auto simp: wf_metadata_def)
  obtain d where d: "expiration_check pf (metadata_field kvs ''expiresAt'') = Inr d"
    using expiration_check_primitive [of "metadata_field kvs ''expiresAt''" pf] assms
    by (auto simp: wf_metadata_def)
  show ?thesis
    by (simp add: display_metadata_def Let_def a b c d metadata_field_read split: prod.splits)
qed

lemma wf_recipient_email:
  "wf_recipient r \<Longrightarrow> get_prop r ''email'' = Inr (JStr (recipient_email r))"
  by (auto simp: wf_recipient_def recipient_email_def split: sum.splits jsval.splits)

lemma some_email_matches_wf:
  "list_all wf_recipient rs \<Longrightarrow>
     some_email_matches pf (JStr u) rs =
       Inr (\<exists>r \<in> set rs. toLowerCase pf (recipient_email r) = toLowerCase pf u)"
  by (induction rs) (auto simp: wf_recipient_email call_toLowerCase_def)

lemma map_email_wf:
  "list_all wf_recipient rs \<Longrightarrow> map_email rs = Inr (map (\<lambda>r. JStr (recipient_email r)) rs)"
  by (induction rs) (auto simp: wf_recipient_email)

lemma element_strings_JStr: "element_strings pf (map JStr ss) = Inr ss"
  by (induction ss) auto

lemma array_join_JStr: "array_join pf sep (map JStr ss) = Inr (join_with sep ss)"
  by (simp add: array_join_def element_strings_JStr)

lemma recipients_text_JStr: "\<not> isl (recipients_text pf (map JStr ss))"
proof (cases "length (map JStr ss) \<le> 2")
  case True
  then show ?thesis
    using array_join_JStr [of pf "'', ''" ss] by (simp add: recipients_text_def)
next
  case False
  then obtain a list where "ss = a # list"
    by (cases ss) auto
  then show ?thesis
    using False by (simp add: recipients_text_def)
qed

lemma recipients_emails_wf:
  assumes "wf_recipients (obj_prop kvs ''recipients'')"
  shows "recipients_emails pf (JObj kvs) = Inr None \<or>
         (\<exists>ss. recipients_emails pf (JObj kvs) = Inr (Some (map JStr ss)))"
proof (cases "obj_prop kvs ''recipients''")
  case (JArr rs)
  then have "map_email rs = Inr (map JStr (map recipient_email rs))"
    using assms map_email_wf [of rs] by (simp add: wf_recipients_def comp_def)
  then have "recipients_emails pf (JObj kvs) = Inr None \<or>
      recipients_emails pf (JObj kvs) = Inr (Some (map JStr (map recipient_email rs)))"
    using JArr by (simp add: recipients_emails_def gt_zero_def ToNumber_def split: bool.splits)
  then show ?thesis
    by blast
qed (use assms in \<open>auto simp: recipients_emails_def wf_recipients_def\<close>)

lemma display_recipients_wf:
  assumes "wf_recipients (obj_prop kvs ''recipients'')"
  shows "snd (display_recipients pf (JObj kvs) p) = None \<and>
         userEmail (fst (display_recipients pf (JObj kvs) p)) = userEmail p \<and>
         infoExpires (fst (display_recipients pf (JObj kvs) p)) = infoExpires p"
proof -
  have "snd (display_recipients pf (JObj kvs) p) = None \<and>
         userEmail (fst (display_recipients pf (JObj kvs) p)) = userEmail p \<and>
         infoExpires (fst (display_recipients pf (JObj kvs) p)) = infoExpires p"
    if "recipients_emails pf (JObj kvs) = Inr (Some (map JStr ss))" for ss
  proof -
    obtain t where t: "recipients_text pf (map JStr ss) = Inr t"
      using recipients_text_JStr [of pf ss] by (cases "recipients_text pf (map JStr ss)") auto
    show ?thesis
      by (simp add: display_recipients_def that t array_join_JStr)
  qed
  then show ?thesis
    using recipients_emails_wf [OF assms, of pf]
    by (auto simp: display_recipients_def)
qed

lemma access_check_wf:
  assumes "wf_recipients (obj_prop kvs ''recipients'')" and "wf_identity user"
  shows "access_check pf user (JObj kvs) =
           Inr (truthy user \<and>
                (\<exists>r \<in> set (recipient_list (obj_prop kvs ''recipients'')).
                    toLowerCase pf (recipient_email r) = toLowerCase pf (identity_email user)))"
  using assms
  by (auto simp: access_check_def wf_recipients_def wf_identity_def recipient_list_def
      identity_email_def some_email_matches_wf split: jsval.splits)

lemma display_metadata_userEmail:
  "userEmail (fst (display_metadata pf sealFile fileSize p)) = userEmail p"
  by (simp add: display_metadata_def Let_def split: sum.splits prod.splits)

lemma display_recipients_userEmail:
  "userEmail (fst (display_recipients pf sealFile p)) = userEmail p"
  by (simp add: display_recipients_def Let_def split: sum.splits option.splits)

lemma display_metadata_expired:
  assumes "display_metadata pf sealFile fileSize p = (p1, Inr isExpired)"
      and "get_prop sealFile ''metadata'' = Inr md"
      and "get_prop (js_or md (JObj [])) ''expiresAt'' = Inr expiresAt"
  shows "\<exists>shown. expiration_check pf expiresAt = Inr (isExpired, shown)"
  using assms
  by (auto simp: display_metadata_def Let_def split: sum.splits prod.splits)

lemma display_access_button:
  "btnOpenViewerDisabled (display_access isExpired hasAccess p) =
     (isExpired \<or> (truthy (userEmail p) \<and> \<not> hasAccess)) \<and>
   btnOpenViewerText (display_access isExpired hasAccess p) =
     (if isExpired then ''File has expired''
      else if \<not> hasAccess \<and> truthy (userEmail p) then ''You are not a recipient''
      else ''Open in Secure Viewer'') \<and>
   screen (display_access isExpired hasAccess p) = ScreenInfo \<and>
   accessRowHidden (display_access isExpired hasAccess p) = (\<not> truthy (userEmail p)) \<and>
   (truthy (userEmail p) \<longrightarrow>
      (infoAccess (display_access isExpired hasAccess p) = Authorized) = hasAccess) \<and>
   infoExpires (display_access isExpired hasAccess p) = infoExpires p"
  by (simp add: display_access_def Let_def)

lemma displayFileInfo_completed:
  assumes "displayFileInfo pf sealFile fileSize p = (p', None)"
  shows "\<exists>p1 p2 isExpired hasAccess.
           display_metadata pf sealFile fileSize p = (p1, Inr isExpired) \<and>
           display_recipients pf sealFile p1 = (p2, None) \<and>
           access_check pf (userEmail p) sealFile = Inr hasAccess \<and>
           userEmail p2 = userEmail p \<and>
           p' = display_access isExpired hasAccess p2"
proof -
  obtain p1 r where m: "display_metadata pf sealFile fileSize p = (p1, r)"
    by (cases "display_metadata pf sealFile fileSize p")
  obtain p2 q where d: "display_recipients pf sealFile p1 = (p2, q)"
    by (cases "display_recipients pf sealFile p1")
  have u1: "userEmail p1 = userEmail p"
    using display_metadata_userEmail [of pf sealFile fileSize p] m by simp
  have u2: "userEmail p2 = userEmail p"
    using display_recipients_userEmail [of pf sealFile p1] d u1 by simp
  show ?thesis
    using assms m d u2
    by (auto simp: displayFileInfo_def split: sum.splits option.splits)
qed

lemma displayFileInfo_done:
  assumes "displayFileInfo pf sealFile fileSize p = (p', None)"
  shows "screen p' = ScreenInfo"
  using displayFileInfo_completed [OF assms] by (auto simp: display_access_button)

text \<open>
  Claim C7, as the code has it.  For a well-formed envelope (primitive metadata fields,
  well-formed recipients) and an identity that is a string or null, displayFileInfo
  completes and shows the info screen, and: \<open>isExpired\<close> holds exactly when
  \<open>meta.expiresAt\<close> has a truthy value and the time value of the date built from it is
  earlier than the current time, which the expiry row shows as the Expired badge; a
  falsy \<open>expiresAt\<close> (absent, but also 0, the empty string, null or false) shows Never;
  the recipients have no part in it.  \<open>hasAccess\<close> holds exactly when an identity is
  known and some recipient's email equals it after \<open>toLowerCase\<close> on both sides.  The
  access row is shown exactly when an identity is known, and then it says Authorized
  exactly when \<open>hasAccess\<close> holds; with no identity it is hidden.
\<close>

theorem authorization_verdict:
  assumes "wf_metadata kvs"
      and "wf_recipients (obj_prop kvs ''recipients'')"
      and "wf_identity (userEmail p)"
  shows "snd (displayFileInfo pf (JObj kvs) fileSize p) = None
       \<and> screen (fst (displayFileInfo pf (JObj kvs) fileSize p)) = ScreenInfo
       \<and> \<not> isl (expiration_check pf (metadata_field kvs ''expiresAt''))
       \<and> fst (projr (expiration_check pf (metadata_field kvs ''expiresAt''))) =
           (truthy (metadata_field kvs ''expiresAt'') \<and>
            (\<exists>t. new_Date pf (metadata_field kvs ''expiresAt'') = Inr (Some t) \<and>
                 t < Date_now pf))
       \<and> (infoExpires (fst (displayFileInfo pf (JObj kvs) fileSize p)) = ExpiredBadge) =
           (truthy (metadata_field kvs ''expiresAt'') \<and>
            (\<exists>t. new_Date pf (metadata_field kvs ''expiresAt'') = Inr (Some t) \<and>
                 t < Date_now pf))
       \<and> (\<not> truthy (metadata_field kvs ''expiresAt'') \<longrightarrow>
            infoExpires (fst (displayFileInfo pf (JObj kvs) fileSize p)) = Never)
       \<and> access_check pf (userEmail p) (JObj kvs) =
           Inr (truthy (userEmail p) \<and>
                (\<exists>r \<in> set (recipient_list (obj_prop kvs ''recipients'')).
                    toLowerCase pf (recipient_email r) =
                    toLowerCase pf (identity_email (userEmail p))))
       \<and> accessRowHidden (fst (displayFileInfo pf (JObj kvs) fileSize p)) =
           (\<not> truthy (userEmail p))
       \<and> (truthy (userEmail p) \<longrightarrow>
            (infoAccess (fst (displayFileInfo pf (JObj kvs) fileSize p)) = Authorized) =
            (\<exists>r \<in> set (recipient_list (obj_prop kvs ''recipients'')).
                toLowerCase pf (recipient_email r) =
                toLowerCase pf (identity_email (userEmail p))))"
proof -
  define ex where "ex = metadata_field kvs ''expiresAt''"
  define E where "E = (truthy ex \<and> (\<exists>t. new_Date pf ex = Inr (Some t) \<and> t < Date_now pf))"
  define H where "H = (truthy (userEmail p) \<and>
            (\<exists>r \<in> set (recipient_list (obj_prop kvs ''recipients'')).
                toLowerCase pf (recipient_email r) =
                toLowerCase pf (identity_email (userEmail p))))"
  have prim: "is_primitive ex"
    using assms(1) by (simp add: wf_metadata_def ex_def)
  have ec: "expiration_check pf ex =
      Inr (E, if \<not> truthy ex then Never else if E then ExpiredBadge
              else ExpiresOn (projr (new_Date pf ex)))"
    using expiration_check_primitive [OF prim, of pf] by (auto simp: E_def)
  obtain p1 where m: "display_metadata pf (JObj kvs) fileSize p = (p1, Inr E)"
    and e1: "infoExpires p1 = snd (projr (expiration_check pf ex))"
    and u1: "userEmail p1 = userEmail p"
    using display_metadata_wf [OF assms(1), of pf fileSize p] ec by (simp add: ex_def)
  obtain p2 where d: "display_recipients pf (JObj kvs) p1 = (p2, None)"
    and e2: "infoExpires p2 = infoExpires p1" and u2: "userEmail p2 = userEmail p1"
    using display_recipients_wf [OF assms(2), of pf p1]
    by (cases "display_recipients pf (JObj kvs) p1") auto
  have acc: "access_check pf (userEmail p) (JObj kvs) = Inr H"
    using access_check_wf [OF assms(2,3), of pf] by (simp add: H_def)
  have res: "displayFileInfo pf (JObj kvs) fileSize p = (display_access E H p2, None)"
    by (simp add: displayFileInfo_def m d u1 u2 acc)
  have shown: "(infoExpires p2 = ExpiredBadge) = E" "\<not> truthy ex \<longrightarrow> infoExpires p2 = Never"
    unfolding e2 e1 ec by (auto simp: E_def)
  note btn = display_access_button [of E H p2]
  have c1: "snd (displayFileInfo pf (JObj kvs) fileSize p) = None"
    and c2: "screen (fst (displayFileInfo pf (JObj kvs) fileSize p)) = ScreenInfo"
    and c5: "(infoExpires (fst (displayFileInfo pf (JObj kvs) fileSize p)) = ExpiredBadge) = E"
    and c6: "\<not> truthy ex \<longrightarrow>
               infoExpires (fst (displayFileInfo pf (JObj kvs) fileSize p)) = Never"
    and c8: "accessRowHidden (fst (displayFileInfo pf (JObj kvs) fileSize p)) =
               (\<not> truthy (userEmail p))"
    and c9: "truthy (userEmail p) \<longrightarrow>
               (infoAccess (fst (displayFileInfo pf (JObj kvs) fileSize p)) = Authorized) = H"
    using btn shown by (simp_all add: res u1 u2)
  have c3: "\<not> isl (expiration_check pf ex)" and c4: "fst (projr (expiration_check pf ex)) = E"
    unfolding ec by simp_all
  have c9': "truthy (userEmail p) \<longrightarrow>
               (infoAccess (fst (displayFileInfo pf (JObj kvs) fileSize p)) = Authorized) =
               (\<exists>r \<in> set (recipient_list (obj_prop kvs ''recipients'')).
                toLowerCase pf (recipient_email r) =
                toLowerCase pf (identity_email (userEmail p)))"
    using c9 by (simp add: H_def)
  show ?thesis
    using c1 c2 c3 c4 c5 c6 acc c8 c9'
    unfolding E_def H_def ex_def by blast
qed

text \<open>
  Recipients \<open>a@x.com\<close> and identity \<open>A@X.com\<close>: displayFileInfo completes, access is
  granted and the access row is shown; no \<open>expiresAt\<close> shows Never.
\<close>

theorem authorization_verdict_witness:
  "access_check (example_platform JNull) (JStr ''A@X.com'')
      (JObj [(''recipients'', JArr [JObj [(''email'', JStr ''a@x.com'')]])]) = Inr True
   \<and> snd (displayFileInfo (example_platform JNull)
        (JObj [(''recipients'', JArr [JObj [(''email'', JStr ''a@x.com'')]])]) 120
        (example_popup (JStr ''A@X.com''))) = None
   \<and> accessRowHidden (fst (displayFileInfo (example_platform JNull)
        (JObj [(''recipients'', JArr [JObj [(''email'', JStr ''a@x.com'')]])]) 120
        (example_popup (JStr ''A@X.com'')))) = False
   \<and> infoAccess (fst (displayFileInfo (example_platform JNull)
        (JObj [(''recipients'', JArr [JObj [(''email'', JStr ''a@x.com'')]])]) 120
        (example_popup (JStr ''A@X.com'')))) = Authorized
   \<and> infoExpires (fst (displayFileInfo (example_platform JNull)
        (JObj [(''recipients'', JArr [JObj [(''email'', JStr ''a@x.com'')]])]) 120
        (example_popup (JStr ''A@X.com'')))) = Never"
proof -
  let ?kvs = "[(''recipients'', JArr [JObj [(''email'', JStr ''a@x.com'')]])]"
  have mf: "metadata_field ?kvs k = JUndefined" for k
    by (simp add: metadata_field_def obj_prop_def js_or_def)
  have wm: "wf_metadata ?kvs"
    by (simp add: wf_metadata_def mf is_primitive_def)
  have wr: "wf_recipients (obj_prop ?kvs ''recipients'')"
    by (simp add: wf_recipients_def wf_recipient_def obj_prop_def)
  have wi: "wf_identity (userEmail (example_popup (JStr ''A@X.com'')))"
    by (simp add: wf_identity_def example_popup_def)
  show ?thesis
    using authorization_verdict [OF wm wr wi, of "example_platform JNull" 120]
    by (simp add: mf obj_prop_def example_popup_def example_platform_def recipient_list_def
        recipient_email_def identity_email_def ascii_toLowerCase_def)
qed

text \<open>
  Claim C7 as stated fails for the timestamp 0: it is present in the metadata and its
  date, the first millisecond of 1970, is earlier than the current time, yet
  \<open>isExpired\<close> is false and the expiry row says Never.
\<close>

theorem expiry_zero_shown_as_never:
  "metadata_field
     [(''version'', JNum 1), (''fileId'', JStr ''f1''), (''payload'', JStr ''ct''),
      (''metadata'', JObj [(''expiresAt'', JNum 0)])] ''expiresAt'' = JNum 0
   \<and> new_Date (example_platform JNull) (JNum 0) = Inr (Some 0)
   \<and> (0::int) < Date_now (example_platform JNull)
   \<and> expiration_check (example_platform JNull) (JNum 0) = Inr (False, Never)
   \<and> displayFileInfo (example_platform JNull)
        (JObj [(''version'', JNum 1), (''fileId'', JStr ''f1''), (''payload'', JStr ''ct''),
               (''metadata'', JObj [(''expiresAt'', JNum 0)])])
        200 (example_popup JNull) =
      ((example_popup JNull)
         \<lparr>infoFilename := ''Unknown file'', infoSize := ''n B'', infoDate := ''Unknown'',
          infoExpires := Never, infoRecipients := ''Unknown'', accessRowHidden := True,
          btnOpenViewerDisabled := False, btnOpenViewerText := ''Open in Secure Viewer'',
          screen := ScreenInfo\<rparr>, None)"
  by (simp add: metadata_field_def obj_prop_def js_or_def new_Date_def ToNumber_def
      TimeClip_def example_platform_def expiration_check_def displayFileInfo_def
      display_metadata_def display_recipients_def display_access_def filename_row_def
      size_row_def date_row_def formatFileSize_def recipients_emails_def access_check_def
      example_popup_def Let_def)

text \<open>
  Claim C8.  Whenever displayFileInfo shows the info screen, the open button is disabled
  exactly when the file is expired or an identity is known and has no access; its text
  is \<open>File has expired\<close> when expired, \<open>You are not a recipient\<close> when not expired and a
  known identity has no access, and \<open>Open in Secure Viewer\<close> with the button enabled in
  every other case, in particular when no identity is known and the file is not expired.
\<close>

theorem open_button_state:
  assumes "displayFileInfo pf sealFile fileSize p = (p', None)"
      and "get_prop sealFile ''metadata'' = Inr md"
      and "get_prop (js_or md (JObj [])) ''expiresAt'' = Inr expiresAt"
      and "expiration_check pf expiresAt = Inr (isExpired, shown)"
      and "access_check pf (userEmail p) sealFile = Inr hasAccess"
  shows "btnOpenViewerDisabled p' = (isExpired \<or> (truthy (userEmail p) \<and> \<not> hasAccess))
       \<and> (isExpired \<longrightarrow> btnOpenViewerText p' = ''File has expired'')
       \<and> (\<not> isExpired \<and> truthy (userEmail p) \<and> \<not> hasAccess \<longrightarrow>
            btnOpenViewerText p' = ''You are not a recipient'')
       \<and> (\<not> isExpired \<and> \<not> (truthy (userEmail p) \<and> \<not> hasAccess) \<longrightarrow>
            \<not> btnOpenViewerDisabled p' \<and> btnOpenViewerText p' = ''Open in Secure Viewer'')
       \<and> (\<not> truthy (userEmail p) \<and> \<not> isExpired \<longrightarrow> \<not> btnOpenViewerDisabled p')
       \<and> screen p' = ScreenInfo"
proof -
  obtain p1 p2 isE h where
    m: "display_metadata pf sealFile fileSize p = (p1, Inr isE)"
    and a: "access_check pf (userEmail p) sealFile = Inr h"
    and u: "userEmail p2 = userEmail p"
    and p': "p' = display_access isE h p2"
    using displayFileInfo_completed [OF assms(1)] by blast
  have "isE = isExpired"
    using display_metadata_expired [OF m assms(2,3)] assms(4) by auto
  moreover have "h = hasAccess"
    using a assms(5) by simp
  ultimately show ?thesis
    using display_access_button [of isExpired hasAccess p2] p' u by auto
qed

text \<open>
  The expired envelope opened by its recipient \<open>u@x.com\<close>: access is granted, and the
  button is disabled with \<open>File has expired\<close>.
\<close>

theorem open_button_state_witness:
  "btnOpenViewerDisabled (fst (displayFileInfo (example_platform JNull) (JObj example_envelope)
      200 (example_popup (JStr ''u@x.com'')))) = True
   \<and> btnOpenViewerText (fst (displayFileInfo (example_platform JNull) (JObj example_envelope)
      200 (example_popup (JStr ''u@x.com'')))) = ''File has expired''
   \<and> access_check (example_platform JNull) (JStr ''u@x.com'') (JObj example_envelope) = Inr True
   \<and> expiration_check (example_platform JNull) (JStr ''2020-01-01T00:00:00.000Z'') =
        Inr (True, ExpiredBadge)"
proof -
  let ?pf = "example_platform JNull"
  let ?p = "example_popup (JStr ''u@x.com'')"
  have acc: "access_check ?pf (userEmail ?p) (JObj example_envelope) = Inr True"
    by (simp add: access_check_def example_envelope_def example_popup_def obj_prop_def
        call_toLowerCase_def)
  have md: "get_prop (JObj example_envelope) ''metadata'' =
              Inr (JObj [(''expiresAt'', JStr ''2020-01-01T00:00:00.000Z'')])"
    by (simp add: example_envelope_def obj_prop_def)
  have ex: "get_prop (js_or (JObj [(''expiresAt'', JStr ''2020-01-01T00:00:00.000Z'')]) (JObj []))
              ''expiresAt'' = Inr (JStr ''2020-01-01T00:00:00.000Z'')"
    by (simp add: js_or_def obj_prop_def)
  have exp: "expiration_check ?pf (JStr ''2020-01-01T00:00:00.000Z'') = Inr (True, ExpiredBadge)"
    by (simp add: expiration_check_def new_Date_def example_platform_def)
  have run: "displayFileInfo ?pf (JObj example_envelope) 200 ?p =
               (fst (displayFileInfo ?pf (JObj example_envelope) 200 ?p), None)"
    by (simp add: displayFileInfo_def display_metadata_def display_recipients_def
        display_access_def filename_row_def size_row_def date_row_def formatFileSize_def
        ToNumber_def new_Date_def recipients_emails_def recipients_text_def array_join_def
        Let_def example_envelope_def obj_prop_def js_or_def gt_zero_def access_check_def
        call_toLowerCase_def example_popup_def expiration_check_def example_platform_def)
  show ?thesis
    using open_button_state [OF run md ex exp acc] acc exp
    by (simp add: example_popup_def)
qed

subsection \<open>handleFile\<close>

lemma handleFile_catch_message:
  "errorMessage (handleFile_catch err p) \<noteq>
     ''This file is not a valid .seal file. It may be corrupted or incomplete.''"
  by (simp add: handleFile_catch_def showError_def)

lemma structure_invalid_obj:
  "structure_invalid (JObj kvs) =
     Inr (\<not> truthy (obj_prop kvs ''version'') \<or> \<not> truthy (obj_prop kvs ''fileId'') \<or>
          \<not> truthy (obj_prop kvs ''payload''))"
  by (simp add: structure_invalid_def)

lemma handleFile_parsed:
  assumes "endsWith (file_name f) ''.seal''" and "\<not> file_size f > 10 * 1024 * 1024"
      and "file_text f = Inr raw" and "startsWith raw ''{''"
      and "JSON_parse pf raw = Inr (JObj kvs)"
  shows "handleFile pf f p =
     (if \<not> truthy (obj_prop kvs ''version'') \<or> \<not> truthy (obj_prop kvs ''fileId'') \<or>
          \<not> truthy (obj_prop kvs ''payload'')
      then showError ''This file is not a valid .seal file. It may be corrupted or incomplete.'' p
      else (case displayFileInfo pf (JObj kvs) (file_size f)
                   (p\<lparr>currentSealFile := Some (JObj kvs), currentRawText := Some raw\<rparr>) of
              (p', Some err) \<Rightarrow> handleFile_catch err p'
            | (p', None) \<Rightarrow> p'))"
  using assms by (simp add: handleFile_def structure_invalid_obj)

text \<open>
  An envelope whose \<open>originalSize\<close> is an object with a \<open>toString\<close> property of its
  own passes the schema check, makes formatFileSize throw, and ends on the error screen
  with the unexpected-error message.
\<close>

lemma handleFile_unconvertible_size:
  "handleFile
     (example_platform
        (JObj [(''version'', JNum 1), (''fileId'', JStr ''f1''), (''payload'', JStr ''ct''),
               (''metadata'', JObj [(''originalSize'', JObj [(''toString'', JNum 1)])])]))
     example_file (example_popup JNull) =
   (example_popup JNull)
     \<lparr>currentSealFile :=
        Some (JObj [(''version'', JNum 1), (''fileId'', JStr ''f1''), (''payload'', JStr ''ct''),
                    (''metadata'', JObj [(''originalSize'', JObj [(''toString'', JNum 1)])])]),
      currentRawText := Some ''{...}'',
      infoFilename := ''Unknown file'',
      errorMessage := ''An unexpected error occurred: Cannot convert object to primitive value'',
      screen := ScreenError\<rparr>"
  by (simp add: handleFile_def example_file_def example_platform_def endsWith_def
      startsWith_def structure_invalid_def obj_prop_def displayFileInfo_def
      display_metadata_def filename_row_def size_row_def formatFileSize_def ToNumber_def
      js_or_def Let_def handleFile_catch_def showError_def example_popup_def)

text \<open>
  Claim C6.  handleFile checks in this order: the file name ends in \<open>.seal\<close>; the size is at
  most 10 MiB; the text starts with an opening brace; the text parses; \<open>version\<close>,
  \<open>fileId\<close> and \<open>payload\<close> are there.  The first check that fails fixes the outcome,
  whatever the later inputs (size, text, parser) are: the popup is on the error screen
  and the error message shown is that check's own, and nothing else of the popup has
  changed.  The five messages differ from each other; and an envelope that lacks one of
  the three keys ends on the error screen with the corrupted-or-incomplete message, the
  current file not set.
\<close>

theorem validation_order:
  "(\<not> endsWith (file_name f) ''.seal'' \<longrightarrow>
      handleFile pf f p = showError
        ''Please select a .seal file. This file type is not supported.'' p
      \<and> errorMessage (handleFile pf f p) =
        ''Please select a .seal file. This file type is not supported.''
      \<and> screen (handleFile pf f p) = ScreenError)
   \<and> (endsWith (file_name f) ''.seal'' \<and> file_size f > 10 * 1024 * 1024 \<longrightarrow>
      handleFile pf f p = showError
        ''This file is too large to open in the extension. Please use seal.email/viewer instead.'' p
      \<and> errorMessage (handleFile pf f p) =
        ''This file is too large to open in the extension. Please use seal.email/viewer instead.''
      \<and> screen (handleFile pf f p) = ScreenError)
   \<and> (endsWith (file_name f) ''.seal'' \<and> \<not> file_size f > 10 * 1024 * 1024 \<and>
       file_text f = Inr raw \<and> \<not> startsWith raw ''{'' \<longrightarrow>
      handleFile pf f p = showError
        ''This file is not a valid .seal file.'' p
      \<and> errorMessage (handleFile pf f p) =
        ''This file is not a valid .seal file.''
      \<and> screen (handleFile pf f p) = ScreenError)
   \<and> (endsWith (file_name f) ''.seal'' \<and> \<not> file_size f > 10 * 1024 * 1024 \<and>
       file_text f = Inr raw \<and> startsWith raw ''{'' \<and>
       JSON_parse pf raw = Inl (SyntaxError m) \<longrightarrow>
      handleFile pf f p = showError
        ''Could not read this file. It may be corrupted.'' p
      \<and> errorMessage (handleFile pf f p) =
        ''Could not read this file. It may be corrupted.''
      \<and> screen (handleFile pf f p) = ScreenError)
   \<and> (endsWith (file_name f) ''.seal'' \<and> \<not> file_size f > 10 * 1024 * 1024 \<and>
       file_text f = Inr raw \<and> startsWith raw ''{'' \<and>
       JSON_parse pf raw = Inr (JObj kvs) \<and>
       (map_of kvs ''version'' = None \<or> map_of kvs ''fileId'' = None \<or>
        map_of kvs ''payload'' = None) \<longrightarrow>
      handleFile pf f p = showError
        ''This file is not a valid .seal file. It may be corrupted or incomplete.'' p
      \<and> errorMessage (handleFile pf f p) =
        ''This file is not a valid .seal file. It may be corrupted or incomplete.''
      \<and> screen (handleFile pf f p) = ScreenError
      \<and> currentSealFile (handleFile pf f p) = currentSealFile p)
   \<and> distinct
       [''Please select a .seal file. This file type is not supported.'',
        ''This file is too large to open in the extension. Please use seal.email/viewer instead.'',
        ''This file is not a valid .seal file.'',
        ''Could not read this file. It may be corrupted.'',
        ''This file is not a valid .seal file. It may be corrupted or incomplete.'']"
proof -
  have s5: "handleFile pf f p = showError
        ''This file is not a valid .seal file. It may be corrupted or incomplete.'' p"
    if "endsWith (file_name f) ''.seal''" "\<not> file_size f > 10 * 1024 * 1024"
       "file_text f = Inr raw" "startsWith raw ''{''" "JSON_parse pf raw = Inr (JObj kvs)"
       "map_of kvs ''version'' = None \<or> map_of kvs ''fileId'' = None \<or>
        map_of kvs ''payload'' = None"
    unfolding handleFile_parsed [OF that(1-5)] using that(6) by (auto simp: obj_prop_def)
  have s1: "handleFile pf f p = showError
        ''Please select a .seal file. This file type is not supported.'' p"
    if "\<not> endsWith (file_name f) ''.seal''"
    using that by (simp add: handleFile_def)
  have s2: "handleFile pf f p = showError
        ''This file is too large to open in the extension. Please use seal.email/viewer instead.'' p"
    if "endsWith (file_name f) ''.seal'' \<and> file_size f > 10 * 1024 * 1024"
    using that by (simp add: handleFile_def)
  have s3: "handleFile pf f p = showError
        ''This file is not a valid .seal file.'' p"
    if "endsWith (file_name f) ''.seal'' \<and> \<not> file_size f > 10 * 1024 * 1024 \<and>
       file_text f = Inr raw \<and> \<not> startsWith raw ''{''"
    using that by (simp add: handleFile_def)
  have s4: "handleFile pf f p = showError
        ''Could not read this file. It may be corrupted.'' p"
    if "endsWith (file_name f) ''.seal'' \<and> \<not> file_size f > 10 * 1024 * 1024 \<and>
       file_text f = Inr raw \<and> startsWith raw ''{'' \<and>
       JSON_parse pf raw = Inl (SyntaxError m)"
    using that by (simp add: handleFile_def handleFile_catch_def)
  have c1: "\<not> endsWith (file_name f) ''.seal'' \<longrightarrow>
      handleFile pf f p = showError
        ''Please select a .seal file. This file type is not supported.'' p
      \<and> errorMessage (handleFile pf f p) =
        ''Please select a .seal file. This file type is not supported.''
      \<and> screen (handleFile pf f p) = ScreenError"
    using s1 by (auto simp: showError_def)
  have c2: "endsWith (file_name f) ''.seal'' \<and> file_size f > 10 * 1024 * 1024 \<longrightarrow>
      handleFile pf f p = showError
        ''This file is too large to open in the extension. Please use seal.email/viewer instead.'' p
      \<and> errorMessage (handleFile pf f p) =
        ''This file is too large to open in the extension. Please use seal.email/viewer instead.''
      \<and> screen (handleFile pf f p) = ScreenError"
    using s2 by (auto simp: showError_def)
  have c3: "endsWith (file_name f) ''.seal'' \<and> \<not> file_size f > 10 * 1024 * 1024 \<and>
       file_text f = Inr raw \<and> \<not> startsWith raw ''{'' \<longrightarrow>
      handleFile pf f p = showError
        ''This file is not a valid .seal file.'' p
      \<and> errorMessage (handleFile pf f p) =
        ''This file is not a valid .seal file.''
      \<and> screen (handleFile pf f p) = ScreenError"
    using s3 by (auto simp: showError_def)
  have c4: "endsWith (file_name f) ''.seal'' \<and> \<not> file_size f > 10 * 1024 * 1024 \<and>
       file_text f = Inr raw \<and> startsWith raw ''{'' \<and>
       JSON_parse pf raw = Inl (SyntaxError m) \<longrightarrow>
      handleFile pf f p = showError
        ''Could not read this file. It may be corrupted.'' p
      \<and> errorMessage (handleFile pf f p) =
        ''Could not read this file. It may be corrupted.''
      \<and> screen (handleFile pf f p) = ScreenError"
    using s4 by (auto simp: showError_def)
  have c5: "endsWith (file_name f) ''.seal'' \<and> \<not> file_size f > 10 * 1024 * 1024 \<and>
       file_text f = Inr raw \<and> startsWith raw ''{'' \<and>
       JSON_parse pf raw = Inr (JObj kvs) \<and>
       (map_of kvs ''version'' = None \<or> map_of kvs ''fileId'' = None \<or>
        map_of kvs ''payload'' = None) \<longrightarrow>
      handleFile pf f p = showError
        ''This file is not a valid .seal file. It may be corrupted or incomplete.'' p
      \<and> errorMessage (handleFile pf f p) =
        ''This file is not a valid .seal file. It may be corrupted or incomplete.''
      \<and> screen (handleFile pf f p) = ScreenError
      \<and> currentSealFile (handleFile pf f p) = currentSealFile p"
    using s5 by (auto simp: showError_def)
  have d: "distinct
       [''Please select a .seal file. This file type is not supported.'',
        ''This file is too large to open in the extension. Please use seal.email/viewer instead.'',
        ''This file is not a valid .seal file.'',
        ''Could not read this file. It may be corrupted.'',
        ''This file is not a valid .seal file. It may be corrupted or incomplete.'']"
    by simp
  show ?thesis
    using c1 c2 c3 c4 c5 d by blast
qed

text \<open>
  One file for each of the five failures, with the message shown for the first and
  the last.
\<close>

theorem validation_order_witness:
  "errorMessage (handleFile (example_platform JNull)
      (example_file\<lparr>file_name := ''report.pdf''\<rparr>) (example_popup JNull)) =
     ''Please select a .seal file. This file type is not supported.''
   \<and> errorMessage (handleFile
      (example_platform (JObj [(''version'', JNum 1), (''payload'', JStr ''ct'')]))
      example_file (example_popup JNull)) =
     ''This file is not a valid .seal file. It may be corrupted or incomplete.''
   \<and> screen (handleFile
      (example_platform (JObj [(''version'', JNum 1), (''payload'', JStr ''ct'')]))
      example_file (example_popup JNull)) = ScreenError
   \<and> handleFile (example_platform JNull) (example_file\<lparr>file_name := ''report.pdf''\<rparr>)
      (example_popup JNull) =
     showError ''Please select a .seal file. This file type is not supported.''
      (example_popup JNull)
   \<and> handleFile (example_platform JNull) (example_file\<lparr>file_size := 10485761\<rparr>)
      (example_popup JNull) =
     showError
       ''This file is too large to open in the extension. Please use seal.email/viewer instead.''
       (example_popup JNull)
   \<and> handleFile (example_platform JNull) (example_file\<lparr>file_text := Inr ''[1]''\<rparr>)
      (example_popup JNull) =
     showError ''This file is not a valid .seal file.'' (example_popup JNull)
   \<and> handleFile
      ((example_platform JNull)\<lparr>JSON_parse := (\<lambda>t. Inl (SyntaxError ''Unexpected token''))\<rparr>)
      example_file (example_popup JNull) =
     showError ''Could not read this file. It may be corrupted.'' (example_popup JNull)
   \<and> handleFile
      (example_platform (JObj [(''version'', JNum 1), (''payload'', JStr ''ct'')]))
      example_file (example_popup JNull) =
     showError ''This file is not a valid .seal file. It may be corrupted or incomplete.''
      (example_popup JNull)"
  using validation_order
    [where f = "example_file\<lparr>file_name := ''report.pdf''\<rparr>"
       and pf = "example_platform JNull" and p = "example_popup JNull"]
    validation_order
    [where f = "example_file\<lparr>file_size := 10485761\<rparr>"
       and pf = "example_platform JNull" and p = "example_popup JNull"]
    validation_order
    [where f = "example_file\<lparr>file_text := Inr ''[1]''\<rparr>" and raw = "''[1]''"
       and pf = "example_platform JNull" and p = "example_popup JNull"]
    validation_order
    [where f = example_file and raw = "''{...}''" and m = "''Unexpected token''"
       and pf = "(example_platform JNull)\<lparr>JSON_parse := (\<lambda>t. Inl (SyntaxError ''Unexpected token''))\<rparr>"
       and p = "example_popup JNull"]
    validation_order
    [where f = example_file and raw = "''{...}''"
       and kvs = "[(''version'', JNum 1), (''payload'', JStr ''ct'')]"
       and pf = "example_platform (JObj [(''version'', JNum 1), (''payload'', JStr ''ct'')])"
       and p = "example_popup JNull"]
  by (simp add: example_file_def example_platform_def endsWith_def startsWith_def showError_def)

text \<open>
  Claim C10.  The schema check tests truthiness: an envelope whose \<open>version\<close> is 0, whose
  \<open>fileId\<close> is the empty string or whose \<open>payload\<close> is the empty string is rejected with
  the corrupted-or-incomplete message; and a parsed object ends with that message
  exactly when one of the three values is falsy.
\<close>

theorem schema_check_truthiness:
  assumes "endsWith (file_name f) ''.seal''" and "\<not> file_size f > 10 * 1024 * 1024"
      and "file_text f = Inr raw" and "startsWith raw ''{''"
      and "JSON_parse pf raw = Inr (JObj kvs)"
  shows "(obj_prop kvs ''version'' = JNum 0 \<or> obj_prop kvs ''fileId'' = JStr [] \<or>
          obj_prop kvs ''payload'' = JStr [] \<longrightarrow>
            handleFile pf f p =
              showError
                ''This file is not a valid .seal file. It may be corrupted or incomplete.'' p)
       \<and> ((screen (handleFile pf f p) = ScreenError \<and>
            errorMessage (handleFile pf f p) =
              ''This file is not a valid .seal file. It may be corrupted or incomplete.'') =
           (\<not> truthy (obj_prop kvs ''version'') \<or> \<not> truthy (obj_prop kvs ''fileId'') \<or>
            \<not> truthy (obj_prop kvs ''payload'')))"
proof -
  let ?p = "p\<lparr>currentSealFile := Some (JObj kvs), currentRawText := Some raw\<rparr>"
  let ?msg = "''This file is not a valid .seal file. It may be corrupted or incomplete.''"
  have ok: "\<not> (screen (case displayFileInfo pf (JObj kvs) (file_size f) ?p of
                          (p', Some err) \<Rightarrow> handleFile_catch err p'
                        | (p', None) \<Rightarrow> p') = ScreenError \<and>
                errorMessage (case displayFileInfo pf (JObj kvs) (file_size f) ?p of
                          (p', Some err) \<Rightarrow> handleFile_catch err p'
                        | (p', None) \<Rightarrow> p') = ?msg)"
  proof (cases "displayFileInfo pf (JObj kvs) (file_size f) ?p")
    case (Pair p' r)
    show ?thesis
    proof (cases r)
      case None
      then show ?thesis
        using Pair displayFileInfo_done [of pf "JObj kvs" "file_size f" ?p p'] by simp
    next
      case (Some err)
      then show ?thesis
        using Pair handleFile_catch_message [of err p'] by simp
    qed
  qed
  show ?thesis
    unfolding handleFile_parsed [OF assms]
    using ok by (auto simp: showError_def)
qed

text \<open>
  Version 0, an empty fileId and an empty payload are each rejected; the complete
  example envelope reaches the info screen.
\<close>

theorem schema_check_truthiness_witness:
  "handleFile
      (example_platform (JObj [(''version'', JNum 0), (''fileId'', JStr ''f1''),
                               (''payload'', JStr ''ct'')]))
      example_file (example_popup JNull) =
     showError ''This file is not a valid .seal file. It may be corrupted or incomplete.''
      (example_popup JNull)
   \<and> handleFile
      (example_platform (JObj [(''version'', JNum 1), (''fileId'', JStr []),
                               (''payload'', JStr ''ct'')]))
      example_file (example_popup JNull) =
     showError ''This file is not a valid .seal file. It may be corrupted or incomplete.''
      (example_popup JNull)
   \<and> handleFile
      (example_platform (JObj [(''version'', JNum 1), (''fileId'', JStr ''f1''),
                               (''payload'', JStr [])]))
      example_file (example_popup JNull) =
     showError ''This file is not a valid .seal file. It may be corrupted or incomplete.''
      (example_popup JNull)
   \<and> screen (handleFile (example_platform (JObj example_envelope)) example_file
        (example_popup JNull)) = ScreenInfo"
proof -
  have run: "screen (handleFile (example_platform (JObj example_envelope)) example_file
        (example_popup JNull)) = ScreenInfo"
    by (simp add: handleFile_def example_file_def example_platform_def endsWith_def
        startsWith_def structure_invalid_def example_envelope_def obj_prop_def
        displayFileInfo_def display_metadata_def display_recipients_def display_access_def
        filename_row_def size_row_def date_row_def formatFileSize_def ToNumber_def
        new_Date_def recipients_emails_def recipients_text_def array_join_def
        call_toLowerCase_def Let_def js_or_def gt_zero_def access_check_def
        example_popup_def expiration_check_def)
  show ?thesis
    using schema_check_truthiness
    [where f = example_file and raw = "''{...}''"
       and kvs = "[(''version'', JNum 0), (''fileId'', JStr ''f1''), (''payload'', JStr ''ct'')]"
       and pf = "example_platform (JObj [(''version'', JNum 0), (''fileId'', JStr ''f1''),
                               (''payload'', JStr ''ct'')])"
       and p = "example_popup JNull"]
    schema_check_truthiness
    [where f = example_file and raw = "''{...}''"
       and kvs = "[(''version'', JNum 1), (''fileId'', JStr []), (''payload'', JStr ''ct'')]"
       and pf = "example_platform (JObj [(''version'', JNum 1), (''fileId'', JStr []),
                               (''payload'', JStr ''ct'')])"
       and p = "example_popup JNull"]
    schema_check_truthiness
    [where f = example_file and raw = "''{...}''"
       and kvs = "[(''version'', JNum 1), (''fileId'', JStr ''f1''), (''payload'', JStr [])]"
       and pf = "example_platform (JObj [(''version'', JNum 1), (''fileId'', JStr ''f1''),
                               (''payload'', JStr [])])"
       and p = "example_popup JNull"]
      run
    by (simp add: example_file_def example_platform_def endsWith_def startsWith_def obj_prop_def)
qed

end
